theory Spec2Isabelle
  imports Main "HOL-Library.AList"
begin

section \<open>Shared data: JSON values, errors, configuration, sessions\<close>

text \<open>
  The library under study (shopify-api-js) is TypeScript. Two of its modules are
  embedded here: the OAuth flow (\<open>begin\<close>, \<open>callback\<close>, \<open>validQuery\<close>,
  \<open>createSession\<close>, \<open>throwIfPrivateApp\<close>) and the GraphQL client
  (\<open>GraphqlClient\<close>). A thrown error is the \<open>Inl\<close> of a sum; the observable
  effects of a call (log lines, outbound HTTP requests) are returned as a trace
  beside the result; the clock, the nonce and the UUID a call draws are arguments.
\<close>

datatype json =
    JNull
  | JBool bool
  | JNumber int
  | JString string
  | JArray "json list"
  | JObject "(string \<times> json) list"

text \<open>JavaScript truthiness of a JSON value, as \<open>if (v)\<close> tests it.\<close>

fun truthy :: "json \<Rightarrow> bool" where
  "truthy JNull = False"
| "truthy (JBool b) = b"
| "truthy (JNumber n) = (n \<noteq> 0)"
| "truthy (JString s) = (s \<noteq> [])"
| "truthy (JArray xs) = True"
| "truthy (JObject kvs) = True"

text \<open>The error classes of \<open>ShopifyErrors\<close> that the two modules throw, and the
  errors their collaborators (shop validation, the HMAC check, the comparison, the HTTP
  client) may throw.\<close>

datatype ShopifyError =
    PrivateAppError string
  | CookieNotFound string
  | InvalidOAuthError string
  | InvalidShopError string
  | InvalidHmacError string
  | SafeCompareError string
  | MissingRequiredArgument string
  | HttpResponseError string
  | GraphqlQueryError string "(string \<times> json) list"

record ConfigInterface =
  apiKey :: string
  apiSecretKey :: string
  scopes :: "string list"
  hostName :: string
  hostScheme :: string
  apiVersion :: string
  isEmbeddedApp :: bool
  isPrivateApp :: bool

text \<open>
  The token-exchange response body. The code casts it to \<open>AccessTokenResponse\<close>
  (\<open>access_token\<close>, \<open>scope\<close>) or to \<open>OnlineAccessResponse\<close>, which extends it
  with the fields of \<open>OnlineAccessInfo\<close>. The field \<open>rest\<close> holds what the code's
  destructuring \<open>{access_token, scope, ...rest}\<close> leaves: nothing for the first
  shape, an \<open>OnlineAccessInfo\<close> for the second. Times are milliseconds since the
  epoch, as \<open>Date.now()\<close> gives them; numbers are integers.
\<close>

record AssociatedUser =
  user_id :: int

record OnlineAccessInfo =
  expires_in :: int
  associated_user_scope :: string
  associated_user :: AssociatedUser

record AccessTokenResponse =
  access_token :: string
  scope :: string
  rest :: "OnlineAccessInfo option"

record Session =
  session_id :: string
  shop :: string
  state :: string
  isOnline :: bool
  accessToken :: "string option"
  session_scope :: "string option"
  expires :: "int option"
  onlineAccessInfo :: "OnlineAccessInfo option"

section \<open>HTTP requests and responses\<close>

datatype DataType = JSON | GraphQL

type_synonym HeaderBag = "(string \<times> string option) list"

record 'd GraphqlParams =
  data :: 'd
  extraHeaders :: "HeaderBag option"

record 'd PostRequestParams = "'d GraphqlParams" +
  path :: string
  type :: DataType

record 'b RequestReturn =
  body :: 'b

record AccessTokenRequest =
  client_id :: string
  client_secret :: string
  code :: "string option"

section \<open>Signed cookies\<close>

text \<open>
  Modelled from the spec: the names \<open>STATE_COOKIE_NAME\<close> and \<open>SESSION_COOKIE_NAME\<close>
  are declared in the flow's \<open>types\<close> module, which is outside the embedded
  sources. The spec speaks of a state cookie and of a second cookie for the session id,
  so they are two distinct names.
\<close>

datatype CookieName = STATE_COOKIE_NAME | SESSION_COOKIE_NAME

record CookieOptions =
  cookie_expires :: "int option"
  sameSite :: "string option"
  secure :: bool
  cookie_path :: "string option"

text \<open>An entry of the outgoing header bag: a signed cookie (name, value, MAC,
  attributes) or the mark that expires a cookie.\<close>

datatype SetCookie =
    SignedCookie CookieName string string CookieOptions
  | ExpiredCookie CookieName

record ReceivedCookie =
  received_value :: string
  received_signature :: "string option"

text \<open>
  The normalized request. Of its URL the flow reads only the search parameters
  (\<open>new URL(request.url, base).searchParams\<close>), kept here in the order of the query
  string; of its headers only the cookies.
\<close>

record NormalizedRequest =
  searchParams :: "(string \<times> string) list"
  received_cookies :: "CookieName \<Rightarrow> ReceivedCookie option"

record Cookies =
  request :: NormalizedRequest
  response :: "SetCookie list"
  keys :: "string list"

record ResponseHeaders =
  Set_Cookie :: "SetCookie list"
  Location :: "string option"

record NormalizedResponse =
  statusCode :: int
  statusText :: string
  headers :: ResponseHeaders

record CallbackResponse =
  callback_headers :: ResponseHeaders
  callback_session :: Session

section \<open>Collaborators of the OAuth flow\<close>

text \<open>
  The flow calls functions of modules outside the embedded sources. Those whose result the
  flow only passes on are parameters: \<open>sanitizeShop(config)(shop, true)\<close> (\<open>None\<close>
  where it throws \<open>InvalidShopError\<close>), \<open>validateHmac(config)(query)\<close> and
  \<open>safeCompare\<close> (each returns a boolean or throws: \<open>Inl\<close> is the error thrown),
  the MAC of the cookie jar, \<open>config.scopes.toString()\<close>,
  \<open>ProcessedQuery.stringify()\<close> after \<open>putAll\<close>, and the \<open>post\<close> of the HTTP
  client built for a shop domain.
\<close>

record Collaborators =
  sanitizeShop :: "ConfigInterface \<Rightarrow> string option \<Rightarrow> string option"
  validateHmac :: "ConfigInterface \<Rightarrow> (string \<times> string) list \<Rightarrow> ShopifyError + bool"
  safeCompare :: "string option \<Rightarrow> string \<Rightarrow> ShopifyError + bool"
  cookie_mac :: "string \<Rightarrow> string \<Rightarrow> string"
  scopes_toString :: "string list \<Rightarrow> string"
  stringify :: "(string \<times> string) list \<Rightarrow> string"
  http_post :: "ConfigInterface \<Rightarrow> string \<Rightarrow> AccessTokenRequest PostRequestParams
                  \<Rightarrow> ShopifyError + AccessTokenResponse RequestReturn"

datatype LogSeverity = Error | Warning | Info | Debug

text \<open>
  Modelled from the spec: the logger (module \<open>logger\<close>, outside the embedded
  sources) writes a line of a severity, and \<open>log.deprecated(version, message)\<close> logs
  the deprecation. The context object passed beside a message is left out of the trace.
\<close>

datatype Effect =
    Log LogSeverity string
  | Deprecated string string
  | Post string "AccessTokenRequest PostRequestParams"

subsection \<open>The cookie jar\<close>

definition Cookies_new :: "NormalizedRequest \<Rightarrow> string list \<Rightarrow> Cookies" where
  "Cookies_new req ks = \<lparr>request = req, response = [], keys = ks\<rparr>"

text \<open>
  Modelled from the spec: \<open>Cookies.setAndSign\<close> (class \<open>Cookies\<close> of
  \<open>runtime/http\<close>, outside the embedded sources) serializes the value with a MAC
  under the first configured key and writes the cookie, with the given attributes, into
  the outgoing header bag. With no key configured nothing can be signed and the bag is
  unchanged; the flow always configures one.
\<close>

definition setAndSign ::
  "Collaborators \<Rightarrow> Cookies \<Rightarrow> CookieName \<Rightarrow> string \<Rightarrow> CookieOptions \<Rightarrow> Cookies" where
  "setAndSign env jar name v opts =
     (case keys jar of
        [] \<Rightarrow> jar
      | k # _ \<Rightarrow>
          jar\<lparr>response := response jar @ [SignedCookie name v (cookie_mac env k v) opts]\<rparr>)"

text \<open>
  Modelled from the spec: \<open>Cookies.getAndVerify\<close> reads the inbound cookie, recomputes
  the MAC and returns the value only if the MAC matches under one of the configured
  keys; a missing and a mismatched cookie both give "absent".
\<close>

definition getAndVerify :: "Collaborators \<Rightarrow> Cookies \<Rightarrow> CookieName \<Rightarrow> string option" where
  "getAndVerify env jar name =
     (case received_cookies (request jar) name of
        None \<Rightarrow> None
      | Some c \<Rightarrow>
          (case received_signature c of
             None \<Rightarrow> None
           | Some sig \<Rightarrow>
               if sig \<in> set (map (\<lambda>k. cookie_mac env k (received_value c)) (keys jar))
               then Some (received_value c) else None))"

text \<open>
  Modelled from the spec: \<open>Cookies.deleteCookie\<close> marks the cookie for expiry in the
  outgoing response. It touches nothing but the outgoing header bag.
\<close>

definition deleteCookie :: "Cookies \<Rightarrow> CookieName \<Rightarrow> Cookies" where
  "deleteCookie jar name = jar\<lparr>response := response jar @ [ExpiredCookie name]\<rparr>"

subsection \<open>Session identifiers\<close>

text \<open>A JavaScript integer in a template literal: its decimal numeral. (A number of
  10^21 or more prints with an exponent; user ids are far below.)\<close>

fun digits :: "nat \<Rightarrow> string" where
  "digits n =
     (if n < 10 then [''0123456789'' ! n]
      else digits (n div 10) @ [''0123456789'' ! (n mod 10)])"

declare digits.simps [simp del]

definition number_toString :: "int \<Rightarrow> string" where
  "number_toString i = (if i < 0 then CHR ''-'' # digits (nat (- i)) else digits (nat i))"

text \<open>
  The number a string of decimal digits denotes. It is not part of the library: it
  serves to state that \<open>number_toString\<close> writes the decimal numeral of its argument.
\<close>

definition digit_value :: "char \<Rightarrow> nat" where
  "digit_value c = of_char c - 48"

definition decimal_value :: "string \<Rightarrow> nat" where
  "decimal_value s = foldl (\<lambda>acc c. 10 * acc + digit_value c) 0 s"

text \<open>
  Modelled from the spec: \<open>getOfflineId\<close> and \<open>getJwtSessionId\<close> (module
  \<open>session/session-utils\<close>, outside the embedded sources). The spec gives the offline id as
  \<open>offline_<shop>\<close> and the embedded online id as \<open><shop>_<userId>\<close>; both fail
  with an invalid-shop error when the shop does not have the platform's domain syntax,
  which is what \<open>sanitizeShop\<close> decides.
\<close>

definition getOfflineId :: "Collaborators \<Rightarrow> ConfigInterface \<Rightarrow> string \<Rightarrow> ShopifyError + string" where
  "getOfflineId env config shp =
     (case sanitizeShop env config (Some shp) of
        None \<Rightarrow> Inl (InvalidShopError shp)
      | Some _ \<Rightarrow> Inr (''offline_'' @ shp))"

definition getJwtSessionId ::
  "Collaborators \<Rightarrow> ConfigInterface \<Rightarrow> string \<Rightarrow> string \<Rightarrow> ShopifyError + string" where
  "getJwtSessionId env config shp userId =
     (case sanitizeShop env config (Some shp) of
        None \<Rightarrow> Inl (InvalidShopError shp)
      | Some _ \<Rightarrow> Inr (shp @ ''_'' @ userId))"

section \<open>The OAuth flow\<close>

text \<open>A value in a template literal, \<open>null\<close> included.\<close>

definition template :: "string option \<Rightarrow> string" where
  "template v = (case v of None \<Rightarrow> ''null'' | Some s \<Rightarrow> s)"

text \<open>\<open>URLSearchParams.get\<close>: the first value of the name, or \<open>null\<close>.\<close>

definition searchParams_get :: "(string \<times> string) list \<Rightarrow> string \<Rightarrow> string option" where
  "searchParams_get q k = map_of q k"

text \<open>
  A JavaScript object with string keys is an association list in insertion order.
  Assigning the entries of \<open>source\<close> into \<open>target\<close>, as the spread
  \<open>{...target, ...source}\<close> and \<open>Object.fromEntries\<close> do: a later entry of a name
  overwrites the earlier one in place, a new name is appended.
\<close>

definition object_assign :: "(string \<times> 'v) list \<Rightarrow> (string \<times> 'v) list \<Rightarrow> (string \<times> 'v) list" where
  "object_assign target source = fold (\<lambda>(k, v) acc. AList.update k v acc) source target"

definition fromEntries :: "(string \<times> string) list \<Rightarrow> (string \<times> string) list" where
  "fromEntries es = object_assign [] es"

definition throwIfPrivateApp :: "bool \<Rightarrow> string \<Rightarrow> ShopifyError option" where
  "throwIfPrivateApp isPrivate message =
     (if isPrivate then Some (PrivateAppError message) else None)"

text \<open>
  \<open>validQuery\<close>: \<open>(await validateHmac(config)(query)) && safeCompare(query.state!,
  stateFromCookie)\<close>. An error thrown by \<open>validateHmac\<close> leaves the function at
  once; \<open>safeCompare\<close> is called only when \<open>validateHmac\<close> has returned true, and
  then its result, or the error it throws, is the result.
\<close>

definition validQuery ::
  "Collaborators \<Rightarrow> ConfigInterface \<Rightarrow> (string \<times> string) list \<Rightarrow> string
     \<Rightarrow> ShopifyError + bool" where
  "validQuery env config query stateFromCookie =
     (case validateHmac env config query of
        Inl e \<Rightarrow> Inl e
      | Inr valid \<Rightarrow>
          if valid then safeCompare env (map_of query ''state'') stateFromCookie
          else Inr False)"

text \<open>
  \<open>createSession\<close>. \<open>now\<close> is what \<open>Date.now()\<close> returns and \<open>uuid\<close> what
  \<open>uuidv4()\<close> returns in this call. The branch on \<open>isOnline\<close> is the case
  distinction on \<open>rest\<close>: the online branch reads the \<open>OnlineAccessInfo\<close> fields.
\<close>

definition createSession ::
  "Collaborators \<Rightarrow> ConfigInterface \<Rightarrow> int \<Rightarrow> string \<Rightarrow> AccessTokenResponse RequestReturn
     \<Rightarrow> string \<Rightarrow> string \<Rightarrow> Effect list \<times> (ShopifyError + Session)" where
  "createSession env config now uuid postResponse shp stateFromCookie =
     (let associatedUser = map_option associated_user (rest (body postResponse));
          isOnline_v = (associatedUser \<noteq> None);
          logged = [Log Info ''Creating new session'']
      in case rest (body postResponse) of
           Some rest_v \<Rightarrow>
             (let responseBody = body postResponse;
                  sessionExpiration = now + expires_in rest_v * 1000
              in case (if isEmbeddedApp config
                       then getJwtSessionId env config shp
                              (number_toString (user_id (associated_user rest_v)))
                       else Inr uuid) of
                   Inl e \<Rightarrow> (logged, Inl e)
                 | Inr sessionId \<Rightarrow>
                     (logged, Inr \<lparr>session_id = sessionId, shop = shp, state = stateFromCookie,
                        isOnline = isOnline_v, accessToken = Some (access_token responseBody),
                        session_scope = Some (scope responseBody),
                        expires = Some sessionExpiration, onlineAccessInfo = Some rest_v\<rparr>))
         | None \<Rightarrow>
             (let responseBody = body postResponse
              in case getOfflineId env config shp of
                   Inl e \<Rightarrow> (logged, Inl e)
                 | Inr sessionId \<Rightarrow>
                     (logged, Inr \<lparr>session_id = sessionId, shop = shp, state = stateFromCookie,
                        isOnline = isOnline_v, accessToken = Some (access_token responseBody),
                        session_scope = Some (scope responseBody),
                        expires = None, onlineAccessInfo = None\<rparr>)))"

text \<open>
  \<open>begin\<close> (named \<open>begin_auth\<close>: \<open>begin\<close> is a keyword). \<open>nonce_v\<close> is what
  \<open>nonce()\<close> returns in this call. The adapter conversions
  (\<open>abstractConvertRequest\<close>, \<open>abstractConvertResponse\<close>) are the identity on the
  normalized shapes.
\<close>

definition begin_auth ::
  "Collaborators \<Rightarrow> ConfigInterface \<Rightarrow> int \<Rightarrow> string \<Rightarrow> string \<Rightarrow> string \<Rightarrow> bool
     \<Rightarrow> NormalizedRequest \<Rightarrow> Effect list \<times> (ShopifyError + NormalizedResponse)" where
  "begin_auth env config now nonce_v shp callbackPath isOnline_p req =
     (case throwIfPrivateApp (isPrivateApp config) ''Cannot perform OAuth for private apps'' of
        Some e \<Rightarrow> ([], Inl e)
      | None \<Rightarrow>
          (let logged = [Log Info ''Beginning OAuth'']
           in case sanitizeShop env config (Some shp) of
                None \<Rightarrow> (logged, Inl (InvalidShopError shp))
              | Some cleanShop \<Rightarrow>
                  (let cookies = Cookies_new req [apiSecretKey config];
                       state_v = nonce_v;
                       cookies = setAndSign env cookies STATE_COOKIE_NAME state_v
                                   \<lparr>cookie_expires = Some (now + 60000), sameSite = Some ''lax'',
                                    secure = True, cookie_path = Some callbackPath\<rparr>;
                       query =
                         [(''client_id'', apiKey config),
                          (''scope'', scopes_toString env (scopes config)),
                          (''redirect_uri'', hostScheme config @ ''://'' @ hostName config @ callbackPath),
                          (''state'', state_v),
                          (''grant_options[]'', if isOnline_p then ''per-user'' else '''')];
                       redirectUrl = ''https://'' @ cleanShop @ ''/admin/oauth/authorize''
                                       @ stringify env query;
                       resp = \<lparr>statusCode = 302, statusText = ''Found'',
                               headers = \<lparr>Set_Cookie = response cookies,
                                          Location = Some redirectUrl\<rparr>\<rparr>
                   in (logged @ [Log Debug (''OAuth started, redirecting to '' @ redirectUrl)],
                       Inr resp))))"

text \<open>
  \<open>callback\<close>. \<open>isOnlineParam\<close> is \<open>None\<close> where the caller leaves the parameter
  undefined. A state cookie whose verified value is the empty string is falsy and is
  treated as not found. Nothing catches an error thrown inside \<open>validQuery\<close>: it
  leaves \<open>callback\<close> as it is.
\<close>

definition callback ::
  "Collaborators \<Rightarrow> ConfigInterface \<Rightarrow> int \<Rightarrow> string \<Rightarrow> bool option \<Rightarrow> NormalizedRequest
     \<Rightarrow> Effect list \<times> (ShopifyError + CallbackResponse)" where
  "callback env config now uuid isOnlineParam req =
     (case throwIfPrivateApp (isPrivateApp config) ''Cannot perform OAuth for private apps'' of
        Some e \<Rightarrow> ([], Inl e)
      | None \<Rightarrow>
          (let log0 = (case isOnlineParam of
                         None \<Rightarrow> []
                       | Some _ \<Rightarrow> [Deprecated ''7.0.0''
                            ''The isOnline param is no longer required for auth callback'']);
               query = searchParams req;
               shp = searchParams_get query ''shop'';
               log1 = log0 @ [Log Info ''Completing OAuth''];
               cookies = Cookies_new req [apiSecretKey config];
               stateFromCookie = getAndVerify env cookies STATE_COOKIE_NAME;
               cookies = deleteCookie cookies STATE_COOKIE_NAME;
               notFound =
                 (log1 @ [Log Error ''Could not find OAuth cookie''],
                  Inl (CookieNotFound
                    (''Cannot complete OAuth process. Could not find an OAuth cookie for shop url: ''
                       @ template shp)))
           in case stateFromCookie of
                None \<Rightarrow> notFound
              | Some st \<Rightarrow>
                  if st = [] then notFound
                  else
                    (let authQuery = fromEntries query
                     in case validQuery env config authQuery st of
                          Inl e \<Rightarrow> (log1, Inl e)
                        | Inr valid \<Rightarrow>
                          if \<not> valid
                          then (log1 @ [Log Error ''Invalid OAuth callback''],
                                Inl (InvalidOAuthError ''Invalid OAuth callback.''))
                          else
                          (let log2 = log1 @
                                 [Log Debug ''OAuth request is valid, requesting access token''];
                               body_v = \<lparr>client_id = apiKey config,
                                         client_secret = apiSecretKey config,
                                         code = searchParams_get query ''code''\<rparr>;
                               postParams = \<lparr>data = body_v, extraHeaders = None,
                                             path = ''/admin/oauth/access_token'', type = JSON\<rparr>
                           in case sanitizeShop env config (searchParams_get query ''shop'') of
                                None \<Rightarrow> (log2, Inl (InvalidShopError (template shp)))
                              | Some cleanShop \<Rightarrow>
                                  (let log3 = log2 @ [Post cleanShop postParams]
                                   in case http_post env config cleanShop postParams of
                                        Inl e \<Rightarrow> (log3, Inl e)
                                      | Inr postResponse \<Rightarrow>
                                          (case createSession env config now uuid postResponse
                                                  cleanShop st of
                                             (log4, Inl e) \<Rightarrow> (log3 @ log4, Inl e)
                                           | (log4, Inr session) \<Rightarrow>
                                               (let cookies =
                                                  (if \<not> isEmbeddedApp config
                                                   then setAndSign env cookies SESSION_COOKIE_NAME
                                                          (session_id session)
                                                          \<lparr>cookie_expires = expires session,
                                                           sameSite = Some ''lax'', secure = True,
                                                           cookie_path = None\<rparr>
                                                   else cookies)
                                                in (log3 @ log4,
                                                    Inr \<lparr>callback_headers =
                                                           \<lparr>Set_Cookie = response cookies,
                                                            Location = None\<rparr>,
                                                         callback_session = session\<rparr>))))))))"

section \<open>The GraphQL client\<close>

text \<open>
  The header name \<open>ShopifyHeader.AccessToken\<close> is declared in the \<open>types\<close> module,
  which is outside the embedded sources: it is a parameter.
\<close>

record ShopifyHeader =
  AccessToken :: string

record HttpClient =
  domain :: string

datatype GraphqlData = DataString string | DataObject "(string \<times> json) list"

text \<open>
  The static side of the class \<open>graphqlClientClass\<close> builds: the configuration and
  the HTTP client class, of which the GraphQL client uses the constructor (a record of
  the domain) and \<open>post\<close>.
\<close>

record GraphqlClass =
  CONFIG :: ConfigInterface
  HTTP_CLIENT :: "HttpClient \<Rightarrow> GraphqlData PostRequestParams
                    \<Rightarrow> ShopifyError + (string \<times> json) list RequestReturn"

record GraphqlClient =
  baseApiPath :: string
  session :: Session
  client :: HttpClient

record AccessTokenHeader =
  header :: string
  header_value :: "string option"

text \<open>\<open>!s\<close> for a string that may be undefined: undefined and the empty string
  are falsy.\<close>

definition falsy_string :: "string option \<Rightarrow> bool" where
  "falsy_string s = (case s of None \<Rightarrow> True | Some v \<Rightarrow> v = [])"

definition GraphqlClient_new :: "GraphqlClass \<Rightarrow> Session \<Rightarrow> ShopifyError + GraphqlClient" where
  "GraphqlClient_new cls params_session =
     (if \<not> isPrivateApp (CONFIG cls) \<and> falsy_string (accessToken params_session)
      then Inl (MissingRequiredArgument ''Missing access token when creating GraphQL client'')
      else Inr \<lparr>baseApiPath = ''/admin/api'', session = params_session,
                client = \<lparr>domain = shop params_session\<rparr>\<rparr>)"

definition getAccessTokenHeader ::
  "ShopifyHeader \<Rightarrow> GraphqlClass \<Rightarrow> GraphqlClient \<Rightarrow> AccessTokenHeader" where
  "getAccessTokenHeader hdr cls this =
     \<lparr>header = AccessToken hdr,
      header_value = (if isPrivateApp (CONFIG cls) then Some (apiSecretKey (CONFIG cls))
                      else accessToken (session this))\<rparr>"

text \<open>\<open>Object.entries(data).length\<close>: the entries of an object, the characters of a
  string.\<close>

definition Object_entries_length :: "GraphqlData \<Rightarrow> nat" where
  "Object_entries_length d = (case d of DataString s \<Rightarrow> length s | DataObject kvs \<Rightarrow> length kvs)"

text \<open>\<open>body.errors\<close> in a condition: undefined where the key is missing.\<close>

definition errors_truthy :: "(string \<times> json) list \<Rightarrow> bool" where
  "errors_truthy b = (case map_of b ''errors'' of None \<Rightarrow> False | Some v \<Rightarrow> truthy v)"

text \<open>
  The request \<open>GraphqlClient.query\<close> assembles once the data has passed the check:
  the access-token header is put first into \<open>extraHeaders\<close> and the caller's
  \<open>extraHeaders\<close> are spread over it; the path and the data type are added.
\<close>

definition query_request ::
  "ShopifyHeader \<Rightarrow> GraphqlClass \<Rightarrow> GraphqlClient \<Rightarrow> GraphqlData GraphqlParams
     \<Rightarrow> GraphqlData PostRequestParams" where
  "query_request hdr cls this params =
     (let accessTokenHeader = getAccessTokenHeader hdr cls this;
          params = params\<lparr>extraHeaders :=
            Some (object_assign [(header accessTokenHeader, header_value accessTokenHeader)]
                   (case extraHeaders params of None \<Rightarrow> [] | Some hs \<Rightarrow> hs))\<rparr>;
          path_v = baseApiPath this @ ''/'' @ apiVersion (CONFIG cls) @ ''/graphql.json'';
          dataType = (case data params of DataObject _ \<Rightarrow> JSON | DataString _ \<Rightarrow> GraphQL)
      in \<lparr>data = data params, extraHeaders = extraHeaders params,
          path = path_v, type = dataType\<rparr>)"

text \<open>
  \<open>GraphqlClient.query\<close>. The first component is the list of HTTP requests the call
  has issued.
\<close>

definition query ::
  "ShopifyHeader \<Rightarrow> GraphqlClass \<Rightarrow> GraphqlClient \<Rightarrow> GraphqlData GraphqlParams
     \<Rightarrow> GraphqlData PostRequestParams list
        \<times> (ShopifyError + (string \<times> json) list RequestReturn)" where
  "query hdr cls this params =
     (if (case data params of DataString s \<Rightarrow> length s = 0 | DataObject _ \<Rightarrow> False)
         \<or> Object_entries_length (data params) = 0
      then ([], Inl (MissingRequiredArgument ''Query missing.''))
      else
        (let posted = query_request hdr cls this params
         in case HTTP_CLIENT cls (client this) posted of
              Inl e \<Rightarrow> ([posted], Inl e)
            | Inr result \<Rightarrow>
                if errors_truthy (body result)
                then ([posted], Inl (GraphqlQueryError ''GraphQL query returned errors'' (body result)))
                else ([posted], Inr result)))"

section \<open>An example installation\<close>

text \<open>
  A concrete configuration, concrete collaborators and concrete requests, on which the
  theorems below are instantiated. The shop validator accepts one shop. The HMAC check
  accepts the query whose \<open>hmac\<close> is \<open>valid\<close>, rejects any other \<open>hmac\<close> and, as
  the library's does, throws \<open>InvalidHmacError\<close> on a query without one. The
  comparison is equality and, as the library's does, throws \<open>SafeCompareError\<close> when
  its first argument is undefined. The MAC of a value under a key is \<open>key/value\<close>,
  the query string is assembled without escaping, and the token endpoint answers the
  code \<open>online\<close> with an online response and any other code with an offline one.
\<close>

fun join_with :: "string \<Rightarrow> string list \<Rightarrow> string" where
  "join_with sep [] = []"
| "join_with sep [x] = x"
| "join_with sep (x # y # ys) = x @ sep @ join_with sep (y # ys)"

definition example_online_info :: OnlineAccessInfo where
  "example_online_info =
     \<lparr>expires_in = 86400, associated_user_scope = ''read_products'',
      associated_user = \<lparr>user_id = 999\<rparr>\<rparr>"

definition example_env :: Collaborators where
  "example_env =
     \<lparr>sanitizeShop = (\<lambda>config s. if s = Some ''shop1.myshopify.io'' then s else None),
      validateHmac = (\<lambda>config q.
        case map_of q ''hmac'' of
          None \<Rightarrow> Inl (InvalidHmacError ''Query does not contain an HMAC value.'')
        | Some h \<Rightarrow>
            if h = [] then Inl (InvalidHmacError ''Query does not contain an HMAC value.'')
            else Inr (h = ''valid'')),
      safeCompare = (\<lambda>a b.
        case a of
          None \<Rightarrow> Inl (SafeCompareError
                    ''Mismatched data types provided: undefined and string'')
        | Some v \<Rightarrow> Inr (v = b)),
      cookie_mac = (\<lambda>k v. k @ ''/'' @ v),
      scopes_toString = join_with '','',
      stringify = (\<lambda>q. CHR ''?'' # join_with ''&'' (map (\<lambda>(k, v). k @ ''='' @ v) q)),
      http_post = (\<lambda>config d p.
        if code (data p) = Some ''online''
        then Inr \<lparr>body = \<lparr>access_token = ''tok'', scope = ''read_products'',
                          rest = Some example_online_info\<rparr>\<rparr>
        else Inr \<lparr>body = \<lparr>access_token = ''tok'', scope = ''read_products'',
                          rest = None\<rparr>\<rparr>)\<rparr>"

definition example_config :: "bool \<Rightarrow> bool \<Rightarrow> ConfigInterface" where
  "example_config embedded private =
     \<lparr>apiKey = ''key'', apiSecretKey = ''secret'', scopes = [''read_products''],
      hostName = ''app.example.com'', hostScheme = ''https'', apiVersion = ''2022-10'',
      isEmbeddedApp = embedded, isPrivateApp = private\<rparr>"

definition example_request ::
  "string \<Rightarrow> string \<Rightarrow> string \<Rightarrow> string \<Rightarrow> NormalizedRequest" where
  "example_request code_v state_v hmac_v sig =
     \<lparr>searchParams = [(''shop'', ''shop1.myshopify.io''), (''code'', code_v),
                      (''state'', state_v), (''hmac'', hmac_v), (''timestamp'', ''1'')],
      received_cookies = (\<lambda>n. if n = STATE_COOKIE_NAME
         then Some \<lparr>received_value = ''nonce1'', received_signature = Some sig\<rparr> else None)\<rparr>"

definition example_header :: ShopifyHeader where
  "example_header = \<lparr>AccessToken = ''X-Shopify-Access-Token''\<rparr>"

definition example_graphql :: "bool \<Rightarrow> (string \<times> json) list \<Rightarrow> GraphqlClass" where
  "example_graphql private answer =
     \<lparr>CONFIG = example_config False private,
      HTTP_CLIENT = (\<lambda>c p. Inr \<lparr>body = answer\<rparr>)\<rparr>"

definition example_session :: "string option \<Rightarrow> Session" where
  "example_session token =
     \<lparr>session_id = ''offline_shop1.myshopify.io'', shop = ''shop1.myshopify.io'',
      state = ''nonce1'', isOnline = False, accessToken = token,
      session_scope = Some ''read_products'', expires = None, onlineAccessInfo = None\<rparr>"

definition example_client :: "string option \<Rightarrow> GraphqlClient" where
  "example_client token =
     \<lparr>baseApiPath = ''/admin/api'', session = example_session token,
      client = \<lparr>domain = ''shop1.myshopify.io''\<rparr>\<rparr>"

section \<open>What a successful callback has done\<close>

text \<open>
  A callback that returns has passed every check of the flow, in the order of the code:
  the app is not private, the state cookie verified to a non-empty value, the query is
  valid, the shop is clean, the token endpoint answered, and \<open>createSession\<close> made
  the session. The returned headers are those of the cookie jar.
\<close>

lemma callback_success:
  assumes "callback env config now uuid p req = (tr, Inr r)"
  shows "\<exists>st cleanShop postResponse log4.
           \<not> isPrivateApp config
         \<and> getAndVerify env (Cookies_new req [apiSecretKey config]) STATE_COOKIE_NAME = Some st
         \<and> st \<noteq> []
         \<and> validQuery env config (fromEntries (searchParams req)) st = Inr True
         \<and> sanitizeShop env config (searchParams_get (searchParams req) ''shop'') = Some cleanShop
         \<and> http_post env config cleanShop
              \<lparr>data = \<lparr>client_id = apiKey config, client_secret = apiSecretKey config,
                       code = searchParams_get (searchParams req) ''code''\<rparr>,
               extraHeaders = None, path = ''/admin/oauth/access_token'', type = JSON\<rparr>
             = Inr postResponse
         \<and> createSession env config now uuid postResponse cleanShop st
             = (log4, Inr (callback_session r))
         \<and> Post cleanShop
              \<lparr>data = \<lparr>client_id = apiKey config, client_secret = apiSecretKey config,
                       code = searchParams_get (searchParams req) ''code''\<rparr>,
               extraHeaders = None, path = ''/admin/oauth/access_token'', type = JSON\<rparr>
             \<in> set tr
         \<and> Set_Cookie (callback_headers r) =
             ExpiredCookie STATE_COOKIE_NAME #
               (if isEmbeddedApp config then []
                else [SignedCookie SESSION_COOKIE_NAME (session_id (callback_session r))
                        (cookie_mac env (apiSecretKey config) (session_id (callback_session r)))
                        \<lparr>cookie_expires = expires (callback_session r), sameSite = Some ''lax'',
                         secure = True, cookie_path = None\<rparr>])"
  using assms
  by (auto simp: callback_def throwIfPrivateApp_def Let_def Cookies_new_def deleteCookie_def
        setAndSign_def
      split: if_splits option.splits sum.splits prod.splits)

lemma createSession_success:
  assumes "createSession env config now uuid postResponse shp st = (tr, Inr s)"
  shows "shop s = shp \<and> state s = st
       \<and> accessToken s = Some (access_token (body postResponse))
       \<and> session_scope s = Some (scope (body postResponse))
       \<and> isOnline s = (map_option associated_user (rest (body postResponse)) \<noteq> None)
       \<and> onlineAccessInfo s = rest (body postResponse)
       \<and> expires s = map_option (\<lambda>info. now + expires_in info * 1000) (rest (body postResponse))"
  using assms
  by (auto simp: createSession_def Let_def split: option.splits sum.splits if_splits)

lemma createSession_id:
  assumes "createSession env config now uuid postResponse shp st = (tr, Inr s)"
  shows "session_id s =
           (case rest (body postResponse) of
              None \<Rightarrow> ''offline_'' @ shp
            | Some info \<Rightarrow>
                if isEmbeddedApp config
                then shp @ ''_'' @ number_toString (user_id (associated_user info))
                else uuid)"
  using assms
  by (auto simp: createSession_def Let_def getOfflineId_def getJwtSessionId_def
      split: option.splits sum.splits if_splits)

lemma createSession_logs:
  "fst (createSession env config now uuid postResponse shp st) = [Log Info ''Creating new session'']"
  by (simp add: createSession_def Let_def split: option.splits sum.splits)

lemma verified_cookie_passes:
  assumes "\<not> isPrivateApp config"
    and "received_cookies req STATE_COOKIE_NAME = Some c"
    and "received_signature c = Some (cookie_mac env (apiSecretKey config) (received_value c))"
    and "received_value c \<noteq> []"
  shows "Log Error ''Could not find OAuth cookie''
           \<notin> set (fst (callback env config now uuid isOnlineParam req))"
proof -
  from assms(2-4)
  have g: "getAndVerify env (Cookies_new req [apiSecretKey config]) STATE_COOKIE_NAME
             = Some (received_value c)"
    by (simp add: getAndVerify_def Cookies_new_def)
  have l: "Log Error ''Could not find OAuth cookie'' \<notin> set log4"
    if "createSession env config now uuid postResponse shp st = (log4, res)"
    for postResponse shp st log4 res
    using createSession_logs [of env config now uuid postResponse shp st] that by simp
  show ?thesis
    using assms(1,4) g l
    by (auto simp: callback_def throwIfPrivateApp_def Let_def
        split: option.splits sum.splits prod.splits)
qed

lemma object_assign_other:
  "k \<notin> fst ` set source \<Longrightarrow> map_of (object_assign target source) k = map_of target k"
  unfolding object_assign_def
  by (induction source arbitrary: target) (auto simp: update_conv')

section \<open>The decimal numeral of a user id\<close>

text \<open>
  \<open>number_toString\<close> writes the decimal numeral: reading the numeral of a natural
  number gives the number back, no numeral of a natural number holds a minus sign, and
  so two integers with the same numeral are the same integer.
\<close>

lemma digit_cases:
  assumes "d < (10::nat)"
  shows "d = 0 \<or> d = 1 \<or> d = 2 \<or> d = 3 \<or> d = 4 \<or> d = 5 \<or> d = 6 \<or> d = 7 \<or> d = 8 \<or> d = 9"
  using assms by arith

lemma digit_value_nth: "d < 10 \<Longrightarrow> digit_value (''0123456789'' ! d) = d"
  using digit_cases [of d] by (auto simp: digit_value_def)

lemma digit_char_nth: "d < 10 \<Longrightarrow> CHR ''-'' \<noteq> ''0123456789'' ! d"
  using digit_cases [of d] by auto

lemma decimal_value_snoc:
  "decimal_value (s @ [c]) = 10 * decimal_value s + digit_value c"
  by (simp add: decimal_value_def)

lemma decimal_value_digits: "decimal_value (digits n) = n"
proof (induction n rule: digits.induct)
  case (1 n)
  show ?case
  proof (cases "n < 10")
    case True
    then have "digits n = [''0123456789'' ! n]"
      by (simp add: digits.simps [of n])
    with True show ?thesis
      by (simp add: decimal_value_def digit_value_nth)
  next
    case False
    then have "digits n = digits (n div 10) @ [''0123456789'' ! (n mod 10)]"
      by (simp add: digits.simps [of n])
    with False 1 show ?thesis
      by (simp add: decimal_value_snoc digit_value_nth)
  qed
qed

lemma digits_no_sign: "CHR ''-'' \<notin> set (digits n)"
proof (induction n rule: digits.induct)
  case (1 n)
  show ?case
  proof (cases "n < 10")
    case True
    then show ?thesis
      by (simp add: digits.simps [of n] digit_char_nth)
  next
    case False
    with 1 show ?thesis
      by (simp add: digits.simps [of n] digit_char_nth)
  qed
qed

lemma digits_inject: "digits m = digits n \<Longrightarrow> m = n"
  by (metis decimal_value_digits)

lemma number_toString_inject:
  assumes "number_toString i = number_toString j"
  shows "i = j"
proof -
  have sign: "CHR ''-'' # xs \<noteq> digits n" for xs n
    using digits_no_sign [of n] by (metis list.set_intros(1))
  consider "i < 0" "j < 0" | "0 \<le> i" "0 \<le> j" | "i < 0" "0 \<le> j" | "0 \<le> i" "j < 0"
    by linarith
  then show ?thesis
  proof cases
    case 1
    with assms have "digits (nat (- i)) = digits (nat (- j))"
      by (simp add: number_toString_def)
    then have "nat (- i) = nat (- j)" by (rule digits_inject)
    with 1 show ?thesis by simp
  next
    case 2
    with assms have "digits (nat i) = digits (nat j)"
      by (simp add: number_toString_def)
    then have "nat i = nat j" by (rule digits_inject)
    with 2 show ?thesis by simp
  next
    case 3
    with assms sign [of "digits (nat (- i))" "nat j"] show ?thesis
      by (simp add: number_toString_def)
  next
    case 4
    with assms sign [of "digits (nat (- j))" "nat i"] show ?thesis
      by (simp add: number_toString_def)
  qed
qed

lemma number_toString_decimal: "0 \<le> i \<Longrightarrow> decimal_value (number_toString i) = nat i"
  by (simp add: number_toString_def decimal_value_digits)

section \<open>The example installation, evaluated\<close>

lemmas example_defs =
  callback_def throwIfPrivateApp_def Let_def Cookies_new_def getAndVerify_def
  deleteCookie_def setAndSign_def validQuery_def fromEntries_def object_assign_def
  searchParams_get_def createSession_def getOfflineId_def getJwtSessionId_def
  example_env_def example_config_def example_request_def example_online_info_def

lemma number_toString_999: "number_toString 999 = ''999''"
  by (simp add: number_toString_def digits.simps)

lemma example_callback_offline:
  "callback example_env (example_config embedded False) now uuid None
     (example_request ''abc'' ''nonce1'' ''valid'' ''secret/nonce1'') =
   ([Log Info ''Completing OAuth'',
     Log Debug ''OAuth request is valid, requesting access token'',
     Post ''shop1.myshopify.io''
       \<lparr>data = \<lparr>client_id = ''key'', client_secret = ''secret'', code = Some ''abc''\<rparr>,
        extraHeaders = None, path = ''/admin/oauth/access_token'', type = JSON\<rparr>,
     Log Info ''Creating new session''],
    Inr \<lparr>callback_headers =
           \<lparr>Set_Cookie =
              ExpiredCookie STATE_COOKIE_NAME #
                (if embedded then []
                 else [SignedCookie SESSION_COOKIE_NAME ''offline_shop1.myshopify.io''
                         ''secret/offline_shop1.myshopify.io''
                         \<lparr>cookie_expires = None, sameSite = Some ''lax'', secure = True,
                          cookie_path = None\<rparr>]),
            Location = None\<rparr>,
         callback_session =
           \<lparr>session_id = ''offline_shop1.myshopify.io'', shop = ''shop1.myshopify.io'',
            state = ''nonce1'', isOnline = False, accessToken = Some ''tok'',
            session_scope = Some ''read_products'', expires = None,
            onlineAccessInfo = None\<rparr>\<rparr>)"
  by (simp add: example_defs)

lemma example_callback_online:
  "callback example_env (example_config embedded False) now uuid None
     (example_request ''online'' ''nonce1'' ''valid'' ''secret/nonce1'') =
   ([Log Info ''Completing OAuth'',
     Log Debug ''OAuth request is valid, requesting access token'',
     Post ''shop1.myshopify.io''
       \<lparr>data = \<lparr>client_id = ''key'', client_secret = ''secret'', code = Some ''online''\<rparr>,
        extraHeaders = None, path = ''/admin/oauth/access_token'', type = JSON\<rparr>,
     Log Info ''Creating new session''],
    Inr \<lparr>callback_headers =
           \<lparr>Set_Cookie =
              ExpiredCookie STATE_COOKIE_NAME #
                (if embedded then []
                 else [SignedCookie SESSION_COOKIE_NAME uuid (''secret/'' @ uuid)
                         \<lparr>cookie_expires = Some (now + 86400000), sameSite = Some ''lax'',
                          secure = True, cookie_path = None\<rparr>]),
            Location = None\<rparr>,
         callback_session =
           \<lparr>session_id = (if embedded then ''shop1.myshopify.io_999'' else uuid),
            shop = ''shop1.myshopify.io'',
            state = ''nonce1'', isOnline = True, accessToken = Some ''tok'',
            session_scope = Some ''read_products'', expires = Some (now + 86400000),
            onlineAccessInfo = Some example_online_info\<rparr>\<rparr>)"
  by (simp add: example_defs number_toString_999)

section \<open>Invalid callbacks\<close>

text \<open>
  C1 as stated says that every callback whose HMAC verification or state comparison
  fails throws \<open>InvalidOAuthError\<close>. \<open>callback\<close> throws it where \<open>validQuery\<close>
  returns false; an error thrown by a check is not caught. With checks that throw as the
  library's do, a callback whose query has no \<open>state\<close> ends in \<open>SafeCompareError\<close>
  and one whose query has no \<open>hmac\<close> ends in \<open>InvalidHmacError\<close>, both with a
  verified state cookie.
\<close>

theorem check_error_propagates_counterexample:
  "callback example_env (example_config False False) 1000 ''uuid-1'' None
     ((example_request ''abc'' ''nonce1'' ''valid'' ''secret/nonce1'')
        \<lparr>searchParams := [(''shop'', ''shop1.myshopify.io''), (''code'', ''abc''),
                          (''hmac'', ''valid''), (''timestamp'', ''1'')]\<rparr>) =
     ([Log Info ''Completing OAuth''],
      Inl (SafeCompareError ''Mismatched data types provided: undefined and string''))
   \<and> callback example_env (example_config False False) 1000 ''uuid-1'' None
     ((example_request ''abc'' ''nonce1'' ''valid'' ''secret/nonce1'')
        \<lparr>searchParams := [(''shop'', ''shop1.myshopify.io''), (''code'', ''abc''),
                          (''state'', ''nonce1''), (''timestamp'', ''1'')]\<rparr>) =
     ([Log Info ''Completing OAuth''],
      Inl (InvalidHmacError ''Query does not contain an HMAC value.''))"
  by (simp add: example_defs)

text \<open>
  C1, amended. Whenever \<open>callback\<close> has retrieved the state cookie (its verified value
  is a non-empty string): if \<open>validateHmac\<close> returns false, or returns true and
  \<open>safeCompare\<close> of the query's \<open>state\<close> against the cookie value returns false,
  \<open>callback\<close> throws \<open>InvalidOAuthError\<close> (the class the specification calls
  InvalidOAuthCallback) after logging the error; if \<open>validateHmac\<close> throws, or returns
  true and \<open>safeCompare\<close> throws, that error leaves \<open>callback\<close> unchanged. In each of
  these cases the result is an error, so no Session is returned, and the trace holds log
  lines only: no token exchange is requested.
\<close>

theorem invalid_callback_rejected:
  assumes "\<not> isPrivateApp config"
    and "getAndVerify env (Cookies_new req [apiSecretKey config]) STATE_COOKIE_NAME = Some st"
    and "st \<noteq> []"
  shows "(validateHmac env config (fromEntries (searchParams req)) = Inr False
          \<or> (validateHmac env config (fromEntries (searchParams req)) = Inr True
              \<and> safeCompare env (map_of (fromEntries (searchParams req)) ''state'') st
                  = Inr False)
          \<longrightarrow> callback env config now uuid isOnlineParam req =
                ((case isOnlineParam of
                    None \<Rightarrow> []
                  | Some _ \<Rightarrow> [Deprecated ''7.0.0''
                       ''The isOnline param is no longer required for auth callback''])
                 @ [Log Info ''Completing OAuth'', Log Error ''Invalid OAuth callback''],
                 Inl (InvalidOAuthError ''Invalid OAuth callback.'')))
       \<and> (\<forall>e. validateHmac env config (fromEntries (searchParams req)) = Inl e
              \<or> (validateHmac env config (fromEntries (searchParams req)) = Inr True
                  \<and> safeCompare env (map_of (fromEntries (searchParams req)) ''state'') st
                      = Inl e)
          \<longrightarrow> callback env config now uuid isOnlineParam req =
                ((case isOnlineParam of
                    None \<Rightarrow> []
                  | Some _ \<Rightarrow> [Deprecated ''7.0.0''
                       ''The isOnline param is no longer required for auth callback''])
                 @ [Log Info ''Completing OAuth''],
                 Inl e))"
proof (intro conjI impI allI)
  assume "validateHmac env config (fromEntries (searchParams req)) = Inr False
          \<or> (validateHmac env config (fromEntries (searchParams req)) = Inr True
              \<and> safeCompare env (map_of (fromEntries (searchParams req)) ''state'') st
                  = Inr False)"
  then have "validQuery env config (fromEntries (searchParams req)) st = Inr False"
    by (auto simp: validQuery_def)
  with assms show "callback env config now uuid isOnlineParam req =
                ((case isOnlineParam of
                    None \<Rightarrow> []
                  | Some _ \<Rightarrow> [Deprecated ''7.0.0''
                       ''The isOnline param is no longer required for auth callback''])
                 @ [Log Info ''Completing OAuth'', Log Error ''Invalid OAuth callback''],
                 Inl (InvalidOAuthError ''Invalid OAuth callback.''))"
    by (simp add: callback_def throwIfPrivateApp_def Let_def Cookies_new_def)
next
  fix e
  assume "validateHmac env config (fromEntries (searchParams req)) = Inl e
              \<or> (validateHmac env config (fromEntries (searchParams req)) = Inr True
                  \<and> safeCompare env (map_of (fromEntries (searchParams req)) ''state'') st
                      = Inl e)"
  then have "validQuery env config (fromEntries (searchParams req)) st = Inl e"
    by (auto simp: validQuery_def)
  with assms show "callback env config now uuid isOnlineParam req =
                ((case isOnlineParam of
                    None \<Rightarrow> []
                  | Some _ \<Rightarrow> [Deprecated ''7.0.0''
                       ''The isOnline param is no longer required for auth callback''])
                 @ [Log Info ''Completing OAuth''],
                 Inl e)"
    by (simp add: callback_def throwIfPrivateApp_def Let_def Cookies_new_def)
qed

theorem invalid_callback_rejected_witness:
  "\<not> isPrivateApp (example_config False False)
   \<and> getAndVerify example_env
        (Cookies_new (example_request ''abc'' ''tampered'' ''valid'' ''secret/nonce1'')
           [apiSecretKey (example_config False False)]) STATE_COOKIE_NAME = Some ''nonce1''
   \<and> validateHmac example_env (example_config False False)
        (fromEntries (searchParams (example_request ''abc'' ''tampered'' ''valid'' ''secret/nonce1'')))
       = Inr True
   \<and> safeCompare example_env
        (map_of (fromEntries
           (searchParams (example_request ''abc'' ''tampered'' ''valid'' ''secret/nonce1'')))
           ''state'') ''nonce1'' = Inr False
   \<and> callback example_env (example_config False False) 1000 ''uuid-1'' None
        (example_request ''abc'' ''tampered'' ''valid'' ''secret/nonce1'') =
        ([Log Info ''Completing OAuth'', Log Error ''Invalid OAuth callback''],
         Inl (InvalidOAuthError ''Invalid OAuth callback.''))
   \<and> getAndVerify example_env
        (Cookies_new (example_request ''abc'' ''nonce1'' ''forged'' ''secret/nonce1'')
           [apiSecretKey (example_config False False)]) STATE_COOKIE_NAME = Some ''nonce1''
   \<and> validateHmac example_env (example_config False False)
        (fromEntries (searchParams (example_request ''abc'' ''nonce1'' ''forged'' ''secret/nonce1'')))
       = Inr False
   \<and> callback example_env (example_config False False) 1000 ''uuid-1'' (Some True)
        (example_request ''abc'' ''nonce1'' ''forged'' ''secret/nonce1'') =
        ([Deprecated ''7.0.0'' ''The isOnline param is no longer required for auth callback'',
          Log Info ''Completing OAuth'', Log Error ''Invalid OAuth callback''],
         Inl (InvalidOAuthError ''Invalid OAuth callback.''))
   \<and> validateHmac example_env (example_config False False)
        (fromEntries (searchParams (example_request ''abc'' ''nonce1'' [] ''secret/nonce1'')))
       = Inl (InvalidHmacError ''Query does not contain an HMAC value.'')
   \<and> callback example_env (example_config False False) 1000 ''uuid-1'' None
        (example_request ''abc'' ''nonce1'' [] ''secret/nonce1'') =
        ([Log Info ''Completing OAuth''],
         Inl (InvalidHmacError ''Query does not contain an HMAC value.''))"
proof -
  let ?cfg = "example_config False False"
  let ?req = "example_request ''abc'' ''tampered'' ''valid'' ''secret/nonce1''"
  let ?req' = "example_request ''abc'' ''nonce1'' ''forged'' ''secret/nonce1''"
  let ?req'' = "example_request ''abc'' ''nonce1'' [] ''secret/nonce1''"
  note defs = getAndVerify_def Cookies_new_def example_request_def example_env_def
    example_config_def fromEntries_def object_assign_def
  have h1: "\<not> isPrivateApp ?cfg"
    by (simp add: example_config_def)
  have h2: "getAndVerify example_env (Cookies_new ?req [apiSecretKey ?cfg])
              STATE_COOKIE_NAME = Some ''nonce1''"
    and h2': "getAndVerify example_env (Cookies_new ?req' [apiSecretKey ?cfg])
              STATE_COOKIE_NAME = Some ''nonce1''"
    and h2'': "getAndVerify example_env (Cookies_new ?req'' [apiSecretKey ?cfg])
              STATE_COOKIE_NAME = Some ''nonce1''"
    by (simp_all add: defs)
  have h3: "''nonce1'' \<noteq> []" by simp
  have v: "validateHmac example_env ?cfg (fromEntries (searchParams ?req)) = Inr True"
    and c: "safeCompare example_env (map_of (fromEntries (searchParams ?req)) ''state'')
              ''nonce1'' = Inr False"
    and v': "validateHmac example_env ?cfg (fromEntries (searchParams ?req')) = Inr False"
    and v'': "validateHmac example_env ?cfg (fromEntries (searchParams ?req''))
              = Inl (InvalidHmacError ''Query does not contain an HMAC value.'')"
    by (simp_all add: defs)
  note t = invalid_callback_rejected [OF h1 h2 h3, of 1000 "''uuid-1''" None]
  note t' = invalid_callback_rejected [OF h1 h2' h3, of 1000 "''uuid-1''" "Some True"]
  note t'' = invalid_callback_rejected [OF h1 h2'' h3, of 1000 "''uuid-1''" None]
  have r: "callback example_env ?cfg 1000 ''uuid-1'' None ?req =
        ([Log Info ''Completing OAuth'', Log Error ''Invalid OAuth callback''],
         Inl (InvalidOAuthError ''Invalid OAuth callback.''))"
    using t v c by simp
  have r': "callback example_env ?cfg 1000 ''uuid-1'' (Some True) ?req' =
        ([Deprecated ''7.0.0'' ''The isOnline param is no longer required for auth callback'',
          Log Info ''Completing OAuth'', Log Error ''Invalid OAuth callback''],
         Inl (InvalidOAuthError ''Invalid OAuth callback.''))"
    using t' v' by simp
  have r'': "callback example_env ?cfg 1000 ''uuid-1'' None ?req'' =
        ([Log Info ''Completing OAuth''],
         Inl (InvalidHmacError ''Query does not contain an HMAC value.''))"
    using t'' v'' by simp
  show ?thesis
    using h1 h2 h2' v c v' v'' r r' r'' by simp
qed

section \<open>The state cookie\<close>

text \<open>
  C2 as stated says that of two callbacks presenting the same raw state cookie the second
  throws \<open>CookieNotFound\<close>. \<open>callback\<close> builds its cookie jar from the request alone
  and keeps no record between invocations, so the same request is accepted again: both
  invocations below return a Session.
\<close>

theorem state_cookie_replay_counterexample:
  "snd (callback example_env (example_config False False) 1000 ''uuid-1'' None
          (example_request ''abc'' ''nonce1'' ''valid'' ''secret/nonce1'')) =
     Inr \<lparr>callback_headers =
            \<lparr>Set_Cookie =
               [ExpiredCookie STATE_COOKIE_NAME,
                SignedCookie SESSION_COOKIE_NAME ''offline_shop1.myshopify.io''
                  ''secret/offline_shop1.myshopify.io''
                  \<lparr>cookie_expires = None, sameSite = Some ''lax'', secure = True,
                   cookie_path = None\<rparr>],
             Location = None\<rparr>,
          callback_session =
            \<lparr>session_id = ''offline_shop1.myshopify.io'', shop = ''shop1.myshopify.io'',
             state = ''nonce1'', isOnline = False, accessToken = Some ''tok'',
             session_scope = Some ''read_products'', expires = None,
             onlineAccessInfo = None\<rparr>\<rparr>
   \<and> snd (callback example_env (example_config False False) 2000 ''uuid-2'' None
          (example_request ''abc'' ''nonce1'' ''valid'' ''secret/nonce1'')) =
     Inr \<lparr>callback_headers =
            \<lparr>Set_Cookie =
               [ExpiredCookie STATE_COOKIE_NAME,
                SignedCookie SESSION_COOKIE_NAME ''offline_shop1.myshopify.io''
                  ''secret/offline_shop1.myshopify.io''
                  \<lparr>cookie_expires = None, sameSite = Some ''lax'', secure = True,
                   cookie_path = None\<rparr>],
             Location = None\<rparr>,
          callback_session =
            \<lparr>session_id = ''offline_shop1.myshopify.io'', shop = ''shop1.myshopify.io'',
             state = ''nonce1'', isOnline = False, accessToken = Some ''tok'',
             session_scope = Some ''read_products'', expires = None,
             onlineAccessInfo = None\<rparr>\<rparr>"
  by (simp add: callback_def throwIfPrivateApp_def Let_def Cookies_new_def getAndVerify_def
        deleteCookie_def setAndSign_def validQuery_def fromEntries_def object_assign_def
        searchParams_get_def createSession_def getOfflineId_def
        example_env_def example_config_def example_request_def)

text \<open>
  C2, amended. Under a configuration that is not a private app, every \<open>callback\<close>
  whose request carries no state cookie, or carries one whose MAC does not verify under
  the API secret, throws \<open>CookieNotFound\<close> after logging only, before the query is
  validated and before any request is sent. \<open>callback\<close> keeps no record of the cookies
  it has seen: a request whose non-empty state cookie verifies passes the cookie check
  on every invocation, whatever was called before.
\<close>

theorem state_cookie_checked_per_request:
  assumes "\<not> isPrivateApp config"
  shows "((received_cookies req STATE_COOKIE_NAME = None
           \<or> (\<exists>c. received_cookies req STATE_COOKIE_NAME = Some c
                  \<and> received_signature c
                      \<noteq> Some (cookie_mac env (apiSecretKey config) (received_value c))))
          \<longrightarrow> callback env config now uuid isOnlineParam req =
                ((case isOnlineParam of
                    None \<Rightarrow> []
                  | Some _ \<Rightarrow> [Deprecated ''7.0.0''
                       ''The isOnline param is no longer required for auth callback''])
                 @ [Log Info ''Completing OAuth'', Log Error ''Could not find OAuth cookie''],
                 Inl (CookieNotFound
                   (''Cannot complete OAuth process. Could not find an OAuth cookie for shop url: ''
                      @ template (searchParams_get (searchParams req) ''shop'')))))
       \<and> (\<forall>c. received_cookies req STATE_COOKIE_NAME = Some c
              \<and> received_signature c
                  = Some (cookie_mac env (apiSecretKey config) (received_value c))
              \<and> received_value c \<noteq> []
            \<longrightarrow> Log Error ''Could not find OAuth cookie''
                  \<notin> set (fst (callback env config now uuid isOnlineParam req)))"
proof (intro conjI impI allI)
  assume "received_cookies req STATE_COOKIE_NAME = None
           \<or> (\<exists>c. received_cookies req STATE_COOKIE_NAME = Some c
                  \<and> received_signature c
                      \<noteq> Some (cookie_mac env (apiSecretKey config) (received_value c)))"
  then have "getAndVerify env (Cookies_new req [apiSecretKey config]) STATE_COOKIE_NAME = None"
    by (auto simp: getAndVerify_def Cookies_new_def split: option.splits)
  with assms show "callback env config now uuid isOnlineParam req =
                ((case isOnlineParam of
                    None \<Rightarrow> []
                  | Some _ \<Rightarrow> [Deprecated ''7.0.0''
                       ''The isOnline param is no longer required for auth callback''])
                 @ [Log Info ''Completing OAuth'', Log Error ''Could not find OAuth cookie''],
                 Inl (CookieNotFound
                   (''Cannot complete OAuth process. Could not find an OAuth cookie for shop url: ''
                      @ template (searchParams_get (searchParams req) ''shop''))))"
    by (simp add: callback_def throwIfPrivateApp_def Let_def)
next
  fix c
  assume "received_cookies req STATE_COOKIE_NAME = Some c
              \<and> received_signature c
                  = Some (cookie_mac env (apiSecretKey config) (received_value c))
              \<and> received_value c \<noteq> []"
  then have c: "received_cookies req STATE_COOKIE_NAME = Some c"
    "received_signature c
       = Some (cookie_mac env (apiSecretKey config) (received_value c))"
    "received_value c \<noteq> []"
    by simp_all
  from verified_cookie_passes [OF assms c]
  show "Log Error ''Could not find OAuth cookie''
                  \<notin> set (fst (callback env config now uuid isOnlineParam req))" .
qed

theorem state_cookie_checked_per_request_witness:
  "\<not> isPrivateApp (example_config False False)
   \<and> received_cookies
        ((example_request ''abc'' ''nonce1'' ''valid'' ''secret/nonce1'')
           \<lparr>received_cookies := (\<lambda>n. None)\<rparr>) STATE_COOKIE_NAME = None
   \<and> callback example_env (example_config False False) 1000 ''uuid-1'' None
        ((example_request ''abc'' ''nonce1'' ''valid'' ''secret/nonce1'')
           \<lparr>received_cookies := (\<lambda>n. None)\<rparr>) =
        ([Log Info ''Completing OAuth'', Log Error ''Could not find OAuth cookie''],
         Inl (CookieNotFound
           ''Cannot complete OAuth process. Could not find an OAuth cookie for shop url: shop1.myshopify.io''))
   \<and> callback example_env (example_config False False) 1000 ''uuid-1'' None
        (example_request ''abc'' ''nonce1'' ''valid'' ''forged'') =
        ([Log Info ''Completing OAuth'', Log Error ''Could not find OAuth cookie''],
         Inl (CookieNotFound
           ''Cannot complete OAuth process. Could not find an OAuth cookie for shop url: shop1.myshopify.io''))
   \<and> Log Error ''Could not find OAuth cookie''
         \<notin> set (fst (callback example_env (example_config False False) 1000 ''uuid-1'' None
                       (example_request ''abc'' ''nonce1'' ''valid'' ''secret/nonce1'')))
   \<and> Log Error ''Could not find OAuth cookie''
         \<notin> set (fst (callback example_env (example_config False False) 2000 ''uuid-2'' None
                       (example_request ''abc'' ''nonce1'' ''valid'' ''secret/nonce1'')))"
proof -
  let ?cfg = "example_config False False"
  let ?absent = "(example_request ''abc'' ''nonce1'' ''valid'' ''secret/nonce1'')
                   \<lparr>received_cookies := (\<lambda>n. None)\<rparr>"
  let ?forged = "example_request ''abc'' ''nonce1'' ''valid'' ''forged''"
  let ?good = "example_request ''abc'' ''nonce1'' ''valid'' ''secret/nonce1''"
  let ?cookie = "\<lparr>received_value = ''nonce1'', received_signature = Some ''secret/nonce1''\<rparr>"
  have h1: "\<not> isPrivateApp ?cfg"
    by (simp add: example_config_def)
  have a: "received_cookies ?absent STATE_COOKIE_NAME = None"
    by simp
  have f: "\<exists>c. received_cookies ?forged STATE_COOKIE_NAME = Some c
             \<and> received_signature c
                 \<noteq> Some (cookie_mac example_env (apiSecretKey ?cfg) (received_value c))"
    by (simp add: example_request_def example_env_def example_config_def)
  have shop: "template (searchParams_get (searchParams ?absent) ''shop'') = ''shop1.myshopify.io''"
             "template (searchParams_get (searchParams ?forged) ''shop'') = ''shop1.myshopify.io''"
    by (simp_all add: template_def searchParams_get_def example_request_def)
  have g: "received_cookies ?good STATE_COOKIE_NAME = Some ?cookie
           \<and> received_signature ?cookie
               = Some (cookie_mac example_env (apiSecretKey ?cfg) (received_value ?cookie))
           \<and> received_value ?cookie \<noteq> []"
    by (simp add: example_request_def example_env_def example_config_def)
  note thm1 = state_cookie_checked_per_request [OF h1, of ?absent example_env 1000 "''uuid-1''" None]
  note thm2 = state_cookie_checked_per_request [OF h1, of ?forged example_env 1000 "''uuid-1''" None]
  note thm3 = state_cookie_checked_per_request [OF h1, of ?good example_env 1000 "''uuid-1''" None]
  note thm4 = state_cookie_checked_per_request [OF h1, of ?good example_env 2000 "''uuid-2''" None]
  have c1: "callback example_env ?cfg 1000 ''uuid-1'' None ?absent =
        ([Log Info ''Completing OAuth'', Log Error ''Could not find OAuth cookie''],
         Inl (CookieNotFound
           ''Cannot complete OAuth process. Could not find an OAuth cookie for shop url: shop1.myshopify.io''))"
    using thm1 a shop by simp
  have c2: "callback example_env ?cfg 1000 ''uuid-1'' None ?forged =
        ([Log Info ''Completing OAuth'', Log Error ''Could not find OAuth cookie''],
         Inl (CookieNotFound
           ''Cannot complete OAuth process. Could not find an OAuth cookie for shop url: shop1.myshopify.io''))"
    using thm2 f shop by simp
  have c3: "Log Error ''Could not find OAuth cookie''
         \<notin> set (fst (callback example_env ?cfg 1000 ''uuid-1'' None ?good))"
    using thm3 g by blast
  have c4: "Log Error ''Could not find OAuth cookie''
         \<notin> set (fst (callback example_env ?cfg 2000 ''uuid-2'' None ?good))"
    using thm4 g by blast
  show ?thesis
    using h1 a c1 c2 c3 c4 by blast
qed

section \<open>Sessions\<close>

text \<open>
  C3. The \<open>isOnline\<close> parameter of \<open>callback\<close> does not decide anything: with the
  parameter supplied, whatever its value, \<open>callback\<close> does what it does without it,
  except that (past the private-app check) it first logs the deprecation. The access
  mode of the returned Session is read off the token-exchange response: \<open>isOnline\<close>
  holds exactly when the body has an \<open>associated_user\<close>.
\<close>

theorem access_mode_from_response_only:
  "callback env config now uuid (Some b) req =
     (if isPrivateApp config then callback env config now uuid None req
      else (Deprecated ''7.0.0'' ''The isOnline param is no longer required for auth callback''
              # fst (callback env config now uuid None req),
            snd (callback env config now uuid None req)))
   \<and> (\<forall>tr r. callback env config now uuid isOnlineParam req = (tr, Inr r) \<longrightarrow>
         (\<exists>cleanShop postParams postResponse.
             Post cleanShop postParams \<in> set tr
           \<and> http_post env config cleanShop postParams = Inr postResponse
           \<and> isOnline (callback_session r)
               = (map_option associated_user (rest (body postResponse)) \<noteq> None)))"
proof (intro conjI allI impI)
  show "callback env config now uuid (Some b) req =
     (if isPrivateApp config then callback env config now uuid None req
      else (Deprecated ''7.0.0'' ''The isOnline param is no longer required for auth callback''
              # fst (callback env config now uuid None req),
            snd (callback env config now uuid None req)))"
    by (simp add: callback_def throwIfPrivateApp_def Let_def
        split: option.splits sum.splits prod.splits)
next
  fix tr r
  assume "callback env config now uuid isOnlineParam req = (tr, Inr r)"
  from callback_success [OF this] obtain st cleanShop postResponse log4 where
    p: "Post cleanShop
          \<lparr>data = \<lparr>client_id = apiKey config, client_secret = apiSecretKey config,
                   code = searchParams_get (searchParams req) ''code''\<rparr>,
           extraHeaders = None, path = ''/admin/oauth/access_token'', type = JSON\<rparr> \<in> set tr"
    and h: "http_post env config cleanShop
          \<lparr>data = \<lparr>client_id = apiKey config, client_secret = apiSecretKey config,
                   code = searchParams_get (searchParams req) ''code''\<rparr>,
           extraHeaders = None, path = ''/admin/oauth/access_token'', type = JSON\<rparr>
          = Inr postResponse"
    and c: "createSession env config now uuid postResponse cleanShop st
              = (log4, Inr (callback_session r))"
    by blast
  from createSession_success [OF c]
  have "isOnline (callback_session r)
          = (map_option associated_user (rest (body postResponse)) \<noteq> None)"
    by blast
  with p h show "\<exists>cleanShop postParams postResponse.
             Post cleanShop postParams \<in> set tr
           \<and> http_post env config cleanShop postParams = Inr postResponse
           \<and> isOnline (callback_session r)
               = (map_option associated_user (rest (body postResponse)) \<noteq> None)"
    by blast
qed

theorem access_mode_from_response_only_witness:
  "callback example_env (example_config True False) 1000 ''uuid-1'' (Some False)
     (example_request ''online'' ''nonce1'' ''valid'' ''secret/nonce1'') =
   (Deprecated ''7.0.0'' ''The isOnline param is no longer required for auth callback''
      # fst (callback example_env (example_config True False) 1000 ''uuid-1'' None
               (example_request ''online'' ''nonce1'' ''valid'' ''secret/nonce1'')),
    snd (callback example_env (example_config True False) 1000 ''uuid-1'' None
           (example_request ''online'' ''nonce1'' ''valid'' ''secret/nonce1'')))
   \<and> (\<exists>tr r postResponse.
         callback example_env (example_config True False) 1000 ''uuid-1'' (Some False)
           (example_request ''online'' ''nonce1'' ''valid'' ''secret/nonce1'') = (tr, Inr r)
       \<and> http_post example_env (example_config True False) ''shop1.myshopify.io''
           \<lparr>data = \<lparr>client_id = ''key'', client_secret = ''secret'', code = Some ''online''\<rparr>,
            extraHeaders = None, path = ''/admin/oauth/access_token'', type = JSON\<rparr>
           = Inr postResponse
       \<and> map_option associated_user (rest (body postResponse)) \<noteq> None
       \<and> isOnline (callback_session r))
   \<and> (\<exists>tr r postResponse.
         callback example_env (example_config True False) 1000 ''uuid-1'' (Some True)
           (example_request ''abc'' ''nonce1'' ''valid'' ''secret/nonce1'') = (tr, Inr r)
       \<and> http_post example_env (example_config True False) ''shop1.myshopify.io''
           \<lparr>data = \<lparr>client_id = ''key'', client_secret = ''secret'', code = Some ''abc''\<rparr>,
            extraHeaders = None, path = ''/admin/oauth/access_token'', type = JSON\<rparr>
           = Inr postResponse
       \<and> map_option associated_user (rest (body postResponse)) = None
       \<and> \<not> isOnline (callback_session r))"
proof -
  let ?cfg = "example_config True False"
  let ?on = "example_request ''online'' ''nonce1'' ''valid'' ''secret/nonce1''"
  let ?off = "example_request ''abc'' ''nonce1'' ''valid'' ''secret/nonce1''"
  have np: "\<not> isPrivateApp ?cfg" by (simp add: example_config_def)
  note on = access_mode_from_response_only
              [of example_env ?cfg 1000 "''uuid-1''" False ?on "Some False"]
  note off = access_mode_from_response_only
              [of example_env ?cfg 1000 "''uuid-1''" True ?off "Some True"]
  have a: "callback example_env ?cfg 1000 ''uuid-1'' (Some False) ?on =
             (Deprecated ''7.0.0'' ''The isOnline param is no longer required for auth callback''
                # fst (callback example_env ?cfg 1000 ''uuid-1'' None ?on),
              snd (callback example_env ?cfg 1000 ''uuid-1'' None ?on))"
    using on np by simp
  have a': "callback example_env ?cfg 1000 ''uuid-1'' (Some True) ?off =
             (Deprecated ''7.0.0'' ''The isOnline param is no longer required for auth callback''
                # fst (callback example_env ?cfg 1000 ''uuid-1'' None ?off),
              snd (callback example_env ?cfg 1000 ''uuid-1'' None ?off))"
    using off np by simp
  have post_on: "http_post example_env ?cfg ''shop1.myshopify.io''
           \<lparr>data = \<lparr>client_id = ''key'', client_secret = ''secret'', code = Some ''online''\<rparr>,
            extraHeaders = None, path = ''/admin/oauth/access_token'', type = JSON\<rparr>
           = Inr \<lparr>body = \<lparr>access_token = ''tok'', scope = ''read_products'',
                           rest = Some example_online_info\<rparr>\<rparr>"
    by (simp add: example_env_def)
  have post_off: "http_post example_env ?cfg ''shop1.myshopify.io''
           \<lparr>data = \<lparr>client_id = ''key'', client_secret = ''secret'', code = Some ''abc''\<rparr>,
            extraHeaders = None, path = ''/admin/oauth/access_token'', type = JSON\<rparr>
           = Inr \<lparr>body = \<lparr>access_token = ''tok'', scope = ''read_products'', rest = None\<rparr>\<rparr>"
    by (simp add: example_env_def)
  have b: "\<exists>tr r postResponse.
         callback example_env ?cfg 1000 ''uuid-1'' (Some False) ?on = (tr, Inr r)
       \<and> http_post example_env ?cfg ''shop1.myshopify.io''
           \<lparr>data = \<lparr>client_id = ''key'', client_secret = ''secret'', code = Some ''online''\<rparr>,
            extraHeaders = None, path = ''/admin/oauth/access_token'', type = JSON\<rparr>
           = Inr postResponse
       \<and> map_option associated_user (rest (body postResponse)) \<noteq> None
       \<and> isOnline (callback_session r)"
    unfolding a post_on by (simp add: example_callback_online)
  have c: "\<exists>tr r postResponse.
         callback example_env ?cfg 1000 ''uuid-1'' (Some True) ?off = (tr, Inr r)
       \<and> http_post example_env ?cfg ''shop1.myshopify.io''
           \<lparr>data = \<lparr>client_id = ''key'', client_secret = ''secret'', code = Some ''abc''\<rparr>,
            extraHeaders = None, path = ''/admin/oauth/access_token'', type = JSON\<rparr>
           = Inr postResponse
       \<and> map_option associated_user (rest (body postResponse)) = None
       \<and> \<not> isOnline (callback_session r)"
    unfolding a' post_off by (simp add: example_callback_offline)
  show ?thesis
    using a b c by blast
qed

text \<open>
  C4. Every Session \<open>callback\<close> returns satisfies: \<open>isOnline\<close> iff
  \<open>onlineAccessInfo\<close> is present iff \<open>expires\<close> is present. For an online
  token-exchange response \<open>expires\<close> is the time of creation plus \<open>expires_in\<close>
  seconds (in milliseconds: \<open>now + expires_in * 1000\<close>) and \<open>onlineAccessInfo\<close> is
  the rest of the response; for an offline response both are absent.
\<close>

theorem session_mode_invariant:
  assumes "callback env config now uuid isOnlineParam req = (tr, Inr r)"
  shows "(isOnline (callback_session r) \<longleftrightarrow> onlineAccessInfo (callback_session r) \<noteq> None)
       \<and> (isOnline (callback_session r) \<longleftrightarrow> expires (callback_session r) \<noteq> None)
       \<and> (\<exists>cleanShop postParams postResponse.
             Post cleanShop postParams \<in> set tr
           \<and> http_post env config cleanShop postParams = Inr postResponse
           \<and> (case rest (body postResponse) of
                 Some info \<Rightarrow>
                   isOnline (callback_session r)
                 \<and> onlineAccessInfo (callback_session r) = Some info
                 \<and> expires (callback_session r) = Some (now + expires_in info * 1000)
               | None \<Rightarrow>
                   \<not> isOnline (callback_session r)
                 \<and> onlineAccessInfo (callback_session r) = None
                 \<and> expires (callback_session r) = None))"
proof -
  from callback_success [OF assms] obtain st cleanShop postResponse log4 where
    p: "Post cleanShop
          \<lparr>data = \<lparr>client_id = apiKey config, client_secret = apiSecretKey config,
                   code = searchParams_get (searchParams req) ''code''\<rparr>,
           extraHeaders = None, path = ''/admin/oauth/access_token'', type = JSON\<rparr> \<in> set tr"
    and h: "http_post env config cleanShop
          \<lparr>data = \<lparr>client_id = apiKey config, client_secret = apiSecretKey config,
                   code = searchParams_get (searchParams req) ''code''\<rparr>,
           extraHeaders = None, path = ''/admin/oauth/access_token'', type = JSON\<rparr>
          = Inr postResponse"
    and c: "createSession env config now uuid postResponse cleanShop st
              = (log4, Inr (callback_session r))"
    by blast
  note s = createSession_success [OF c]
  have inv: "(isOnline (callback_session r) \<longleftrightarrow> onlineAccessInfo (callback_session r) \<noteq> None)
       \<and> (isOnline (callback_session r) \<longleftrightarrow> expires (callback_session r) \<noteq> None)"
    using s by (cases "rest (body postResponse)") simp_all
  have shape: "(case rest (body postResponse) of
                 Some info \<Rightarrow>
                   isOnline (callback_session r)
                 \<and> onlineAccessInfo (callback_session r) = Some info
                 \<and> expires (callback_session r) = Some (now + expires_in info * 1000)
               | None \<Rightarrow>
                   \<not> isOnline (callback_session r)
                 \<and> onlineAccessInfo (callback_session r) = None
                 \<and> expires (callback_session r) = None)"
    using s by (cases "rest (body postResponse)") simp_all
  from inv p h shape show ?thesis by blast
qed

theorem session_mode_invariant_witness:
  "callback example_env (example_config False False) 1000 ''uuid-1'' None
     (example_request ''online'' ''nonce1'' ''valid'' ''secret/nonce1'')
   = ([Log Info ''Completing OAuth'',
       Log Debug ''OAuth request is valid, requesting access token'',
       Post ''shop1.myshopify.io''
         \<lparr>data = \<lparr>client_id = ''key'', client_secret = ''secret'', code = Some ''online''\<rparr>,
          extraHeaders = None, path = ''/admin/oauth/access_token'', type = JSON\<rparr>,
       Log Info ''Creating new session''],
      Inr \<lparr>callback_headers =
             \<lparr>Set_Cookie =
                [ExpiredCookie STATE_COOKIE_NAME,
                 SignedCookie SESSION_COOKIE_NAME ''uuid-1'' ''secret/uuid-1''
                   \<lparr>cookie_expires = Some 86401000, sameSite = Some ''lax'',
                    secure = True, cookie_path = None\<rparr>],
              Location = None\<rparr>,
           callback_session =
             \<lparr>session_id = ''uuid-1'', shop = ''shop1.myshopify.io'',
              state = ''nonce1'', isOnline = True, accessToken = Some ''tok'',
              session_scope = Some ''read_products'', expires = Some 86401000,
              onlineAccessInfo = Some example_online_info\<rparr>\<rparr>)
   \<and> (isOnline \<lparr>session_id = ''uuid-1'', shop = ''shop1.myshopify.io'',
              state = ''nonce1'', isOnline = True, accessToken = Some ''tok'',
              session_scope = Some ''read_products'', expires = Some 86401000,
              onlineAccessInfo = Some example_online_info\<rparr>
        \<longleftrightarrow> expires \<lparr>session_id = ''uuid-1'', shop = ''shop1.myshopify.io'',
              state = ''nonce1'', isOnline = True, accessToken = Some ''tok'',
              session_scope = Some ''read_products'', expires = Some 86401000,
              onlineAccessInfo = Some example_online_info\<rparr> \<noteq> None)"
proof -
  have e: "callback example_env (example_config False False) 1000 ''uuid-1'' None
     (example_request ''online'' ''nonce1'' ''valid'' ''secret/nonce1'')
   = ([Log Info ''Completing OAuth'',
       Log Debug ''OAuth request is valid, requesting access token'',
       Post ''shop1.myshopify.io''
         \<lparr>data = \<lparr>client_id = ''key'', client_secret = ''secret'', code = Some ''online''\<rparr>,
          extraHeaders = None, path = ''/admin/oauth/access_token'', type = JSON\<rparr>,
       Log Info ''Creating new session''],
      Inr \<lparr>callback_headers =
             \<lparr>Set_Cookie =
                [ExpiredCookie STATE_COOKIE_NAME,
                 SignedCookie SESSION_COOKIE_NAME ''uuid-1'' ''secret/uuid-1''
                   \<lparr>cookie_expires = Some 86401000, sameSite = Some ''lax'',
                    secure = True, cookie_path = None\<rparr>],
              Location = None\<rparr>,
           callback_session =
             \<lparr>session_id = ''uuid-1'', shop = ''shop1.myshopify.io'',
              state = ''nonce1'', isOnline = True, accessToken = Some ''tok'',
              session_scope = Some ''read_products'', expires = Some 86401000,
              onlineAccessInfo = Some example_online_info\<rparr>\<rparr>)"
    by (simp add: example_callback_online)
  from session_mode_invariant [OF e] e show ?thesis
    by simp
qed

text \<open>
  C5. The id of a created session, for any two sessions created for the same shop.
  Offline: the id is \<open>offline_<shop>\<close>, so the two ids are the same string. Online,
  embedded app: the id is \<open><shop>_<userId>\<close>, where \<open><userId>\<close> is the decimal
  numeral of the associated user's id, so the two ids are the same exactly when the two
  user ids are. Online, app not embedded: the id is the value \<open>uuidv4()\<close> returned in
  that call, so the two ids differ exactly when the two draws differ (how likely two
  draws are to coincide is a property of the generator, outside this model).
\<close>

theorem session_id_derivation:
  assumes "createSession env config now uuid postResponse shp st = (tr, Inr s)"
    and "createSession env config now' uuid' postResponse' shp st' = (tr', Inr s')"
  shows "(\<not> isOnline s \<longrightarrow> session_id s = ''offline_'' @ shp)
       \<and> (\<not> isOnline s \<and> \<not> isOnline s' \<longrightarrow> session_id s' = session_id s)
       \<and> (isOnline s \<and> isEmbeddedApp config \<longrightarrow>
            (\<exists>info. rest (body postResponse) = Some info
               \<and> session_id s = shp @ ''_'' @ number_toString (user_id (associated_user info))
               \<and> (0 \<le> user_id (associated_user info) \<longrightarrow>
                    decimal_value (number_toString (user_id (associated_user info)))
                      = nat (user_id (associated_user info)))))
       \<and> (isOnline s \<and> isOnline s' \<and> isEmbeddedApp config \<longrightarrow>
            (\<exists>info info'. rest (body postResponse) = Some info
               \<and> rest (body postResponse') = Some info'
               \<and> (session_id s' = session_id s
                    \<longleftrightarrow> user_id (associated_user info') = user_id (associated_user info))))
       \<and> (isOnline s \<and> \<not> isEmbeddedApp config \<longrightarrow> session_id s = uuid)
       \<and> (isOnline s \<and> isOnline s' \<and> \<not> isEmbeddedApp config \<longrightarrow>
            (session_id s' = session_id s \<longleftrightarrow> uuid' = uuid))"
proof (cases "rest (body postResponse)")
  case None
  note off = None
  with createSession_success [OF assms(1)] createSession_id [OF assms(1)]
  have s: "\<not> isOnline s" "session_id s = ''offline_'' @ shp"
    by simp_all
  show ?thesis
  proof (cases "rest (body postResponse')")
    case None
    with createSession_id [OF assms(2)] have "session_id s' = ''offline_'' @ shp"
      by simp
    with s show ?thesis by simp
  next
    case (Some info')
    with createSession_success [OF assms(2)] have "isOnline s'"
      by simp
    with s show ?thesis by simp
  qed
next
  case (Some info)
  with createSession_success [OF assms(1)] createSession_id [OF assms(1)]
  have s: "isOnline s"
    "session_id s = (if isEmbeddedApp config
                     then shp @ ''_'' @ number_toString (user_id (associated_user info))
                     else uuid)"
    by simp_all
  have numeral: "0 \<le> user_id (associated_user info) \<longrightarrow>
                   decimal_value (number_toString (user_id (associated_user info)))
                     = nat (user_id (associated_user info))"
    by (simp add: number_toString_decimal)
  show ?thesis
  proof (cases "rest (body postResponse')")
    case None
    with createSession_success [OF assms(2)] have "\<not> isOnline s'"
      by simp
    with s Some numeral show ?thesis by simp
  next
    case (Some info')
    with createSession_success [OF assms(2)] createSession_id [OF assms(2)]
    have s': "isOnline s'"
      "session_id s' = (if isEmbeddedApp config
                        then shp @ ''_'' @ number_toString (user_id (associated_user info'))
                        else uuid')"
      by simp_all
    have same: "number_toString (user_id (associated_user info'))
                  = number_toString (user_id (associated_user info))
                \<longleftrightarrow> user_id (associated_user info') = user_id (associated_user info)"
      by (auto dest: number_toString_inject)
    from s s' \<open>rest (body postResponse) = Some info\<close> Some numeral same
    show ?thesis by simp
  qed
qed

theorem session_id_derivation_witness:
  "createSession example_env (example_config False False) 1000 ''uuid-1''
     \<lparr>body = \<lparr>access_token = ''tok'', scope = ''read_products'', rest = None\<rparr>\<rparr>
     ''shop1.myshopify.io'' ''nonce1''
   = ([Log Info ''Creating new session''],
      Inr \<lparr>session_id = ''offline_shop1.myshopify.io'', shop = ''shop1.myshopify.io'',
           state = ''nonce1'', isOnline = False, accessToken = Some ''tok'',
           session_scope = Some ''read_products'', expires = None, onlineAccessInfo = None\<rparr>)
   \<and> createSession example_env (example_config False False) 2000 ''uuid-2''
     \<lparr>body = \<lparr>access_token = ''tok2'', scope = ''write_products'', rest = None\<rparr>\<rparr>
     ''shop1.myshopify.io'' ''nonce2''
   = ([Log Info ''Creating new session''],
      Inr \<lparr>session_id = ''offline_shop1.myshopify.io'', shop = ''shop1.myshopify.io'',
           state = ''nonce2'', isOnline = False, accessToken = Some ''tok2'',
           session_scope = Some ''write_products'', expires = None, onlineAccessInfo = None\<rparr>)
   \<and> createSession example_env (example_config True False) 1000 ''uuid-1''
     \<lparr>body = \<lparr>access_token = ''tok'', scope = ''read_products'',
              rest = Some example_online_info\<rparr>\<rparr>
     ''shop1.myshopify.io'' ''nonce1''
   = ([Log Info ''Creating new session''],
      Inr \<lparr>session_id = ''shop1.myshopify.io_999'', shop = ''shop1.myshopify.io'',
           state = ''nonce1'', isOnline = True, accessToken = Some ''tok'',
           session_scope = Some ''read_products'', expires = Some 86401000,
           onlineAccessInfo = Some example_online_info\<rparr>)
   \<and> createSession example_env (example_config True False) 2000 ''uuid-2''
     \<lparr>body = \<lparr>access_token = ''tok'', scope = ''read_products'',
              rest = Some (example_online_info
                            \<lparr>associated_user := \<lparr>user_id = 1023456789\<rparr>\<rparr>)\<rparr>\<rparr>
     ''shop1.myshopify.io'' ''nonce1''
   = ([Log Info ''Creating new session''],
      Inr \<lparr>session_id = ''shop1.myshopify.io_1023456789'', shop = ''shop1.myshopify.io'',
           state = ''nonce1'', isOnline = True, accessToken = Some ''tok'',
           session_scope = Some ''read_products'', expires = Some 86402000,
           onlineAccessInfo = Some (example_online_info
                                     \<lparr>associated_user := \<lparr>user_id = 1023456789\<rparr>\<rparr>)\<rparr>)
   \<and> ''shop1.myshopify.io_1023456789'' \<noteq> ''shop1.myshopify.io_999''
   \<and> decimal_value (number_toString 1023456789) = 1023456789
   \<and> createSession example_env (example_config False False) 1000 ''uuid-1''
     \<lparr>body = \<lparr>access_token = ''tok'', scope = ''read_products'',
              rest = Some example_online_info\<rparr>\<rparr>
     ''shop1.myshopify.io'' ''nonce1''
   = ([Log Info ''Creating new session''],
      Inr \<lparr>session_id = ''uuid-1'', shop = ''shop1.myshopify.io'',
           state = ''nonce1'', isOnline = True, accessToken = Some ''tok'',
           session_scope = Some ''read_products'', expires = Some 86401000,
           onlineAccessInfo = Some example_online_info\<rparr>)
   \<and> createSession example_env (example_config False False) 2000 ''uuid-2''
     \<lparr>body = \<lparr>access_token = ''tok'', scope = ''read_products'',
              rest = Some example_online_info\<rparr>\<rparr>
     ''shop1.myshopify.io'' ''nonce1''
   = ([Log Info ''Creating new session''],
      Inr \<lparr>session_id = ''uuid-2'', shop = ''shop1.myshopify.io'',
           state = ''nonce1'', isOnline = True, accessToken = Some ''tok'',
           session_scope = Some ''read_products'', expires = Some 86402000,
           onlineAccessInfo = Some example_online_info\<rparr>)"
proof -
  let ?off = "\<lparr>body = \<lparr>access_token = ''tok'', scope = ''read_products'', rest = None\<rparr>\<rparr>"
  let ?off' = "\<lparr>body = \<lparr>access_token = ''tok2'', scope = ''write_products'', rest = None\<rparr>\<rparr>"
  let ?on = "\<lparr>body = \<lparr>access_token = ''tok'', scope = ''read_products'',
                        rest = Some example_online_info\<rparr>\<rparr>"
  let ?info' = "example_online_info\<lparr>associated_user := \<lparr>user_id = 1023456789\<rparr>\<rparr>"
  let ?on' = "\<lparr>body = \<lparr>access_token = ''tok'', scope = ''read_products'',
                         rest = Some ?info'\<rparr>\<rparr>"
  have n: "number_toString 1023456789 = ''1023456789''"
    by (simp add: number_toString_def digits.simps)
  have off1: "createSession example_env (example_config False False) 1000 ''uuid-1''
      ?off ''shop1.myshopify.io'' ''nonce1''
    = ([Log Info ''Creating new session''],
      Inr \<lparr>session_id = ''offline_shop1.myshopify.io'', shop = ''shop1.myshopify.io'',
           state = ''nonce1'', isOnline = False, accessToken = Some ''tok'',
           session_scope = Some ''read_products'', expires = None, onlineAccessInfo = None\<rparr>)"
    by (simp add: example_defs)
  have off2: "createSession example_env (example_config False False) 2000 ''uuid-2''
      ?off' ''shop1.myshopify.io'' ''nonce2''
    = ([Log Info ''Creating new session''],
      Inr \<lparr>session_id = ''offline_shop1.myshopify.io'', shop = ''shop1.myshopify.io'',
           state = ''nonce2'', isOnline = False, accessToken = Some ''tok2'',
           session_scope = Some ''write_products'', expires = None, onlineAccessInfo = None\<rparr>)"
    by (simp add: example_defs)
  have emb1: "createSession example_env (example_config True False) 1000 ''uuid-1''
      ?on ''shop1.myshopify.io'' ''nonce1''
    = ([Log Info ''Creating new session''],
      Inr \<lparr>session_id = ''shop1.myshopify.io_999'', shop = ''shop1.myshopify.io'',
           state = ''nonce1'', isOnline = True, accessToken = Some ''tok'',
           session_scope = Some ''read_products'', expires = Some 86401000,
           onlineAccessInfo = Some example_online_info\<rparr>)"
    by (simp add: example_defs number_toString_999)
  have emb2: "createSession example_env (example_config True False) 2000 ''uuid-2''
      ?on' ''shop1.myshopify.io'' ''nonce1''
    = ([Log Info ''Creating new session''],
      Inr \<lparr>session_id = ''shop1.myshopify.io_1023456789'', shop = ''shop1.myshopify.io'',
           state = ''nonce1'', isOnline = True, accessToken = Some ''tok'',
           session_scope = Some ''read_products'', expires = Some 86402000,
           onlineAccessInfo = Some ?info'\<rparr>)"
    by (simp add: example_defs n)
  have web1: "createSession example_env (example_config False False) 1000 ''uuid-1''
      ?on ''shop1.myshopify.io'' ''nonce1''
    = ([Log Info ''Creating new session''],
      Inr \<lparr>session_id = ''uuid-1'', shop = ''shop1.myshopify.io'',
           state = ''nonce1'', isOnline = True, accessToken = Some ''tok'',
           session_scope = Some ''read_products'', expires = Some 86401000,
           onlineAccessInfo = Some example_online_info\<rparr>)"
    by (simp add: example_defs)
  have web2: "createSession example_env (example_config False False) 2000 ''uuid-2''
      ?on ''shop1.myshopify.io'' ''nonce1''
    = ([Log Info ''Creating new session''],
      Inr \<lparr>session_id = ''uuid-2'', shop = ''shop1.myshopify.io'',
           state = ''nonce1'', isOnline = True, accessToken = Some ''tok'',
           session_scope = Some ''read_products'', expires = Some 86402000,
           onlineAccessInfo = Some example_online_info\<rparr>)"
    by (simp add: example_defs)
  have d: "decimal_value (number_toString 1023456789) = 1023456789"
    using session_id_derivation [OF emb2 emb1] by (simp add: example_online_info_def)
  have differ: "''shop1.myshopify.io_1023456789'' \<noteq> ''shop1.myshopify.io_999''"
    using session_id_derivation [OF emb1 emb2]
    by (simp add: example_config_def example_online_info_def number_toString_999)
  from off1 off2 emb1 emb2 web1 web2 d differ
  show ?thesis
    by simp
qed

section \<open>Private apps are refused\<close>

text \<open>
  C6. Under a configuration with \<open>isPrivateApp = true\<close>, \<open>begin\<close> and \<open>callback\<close>
  both throw \<open>PrivateAppError\<close> at once: the result is the error, never a response
  (so no cookie is set, no redirect is built, no Session is made), and the trace of
  effects is empty (nothing is logged, no request is sent).
\<close>

theorem private_app_rejected:
  assumes "isPrivateApp config"
  shows "begin_auth env config now nonce_v shp callbackPath isOnline_p req =
           ([], Inl (PrivateAppError ''Cannot perform OAuth for private apps''))
       \<and> callback env config now uuid isOnlineParam req =
           ([], Inl (PrivateAppError ''Cannot perform OAuth for private apps''))"
proof -
  from assms have thrown:
    "throwIfPrivateApp (isPrivateApp config) message = Some (PrivateAppError message)"
    for message
    by (simp add: throwIfPrivateApp_def)
  have "begin_auth env config now nonce_v shp callbackPath isOnline_p req =
           ([], Inl (PrivateAppError ''Cannot perform OAuth for private apps''))"
    unfolding begin_auth_def thrown by simp
  moreover have "callback env config now uuid isOnlineParam req =
           ([], Inl (PrivateAppError ''Cannot perform OAuth for private apps''))"
    unfolding callback_def thrown by simp
  ultimately show ?thesis ..
qed

theorem private_app_rejected_witness:
  "isPrivateApp (example_config False True)
   \<and> begin_auth example_env (example_config False True) 1000 ''nonce1'' ''shop1.myshopify.io''
        ''/auth/callback'' False (example_request ''abc'' ''nonce1'' ''valid'' ''secret/nonce1'') =
        ([], Inl (PrivateAppError ''Cannot perform OAuth for private apps''))
   \<and> callback example_env (example_config False True) 1000 ''uuid-1'' None
        (example_request ''abc'' ''nonce1'' ''valid'' ''secret/nonce1'') =
        ([], Inl (PrivateAppError ''Cannot perform OAuth for private apps''))"
proof -
  have h: "isPrivateApp (example_config False True)"
    by (simp add: example_config_def)
  show ?thesis
    using h private_app_rejected [OF h] by simp
qed

section \<open>The redirect of begin\<close>

text \<open>
  C7. A \<open>begin\<close> that passes the private-app check and the shop validation returns
  status 302 with the \<open>Location\<close>
  \<open>https://<cleanShop>/admin/oauth/authorize\<close> followed by the query string of
  \<open>client_id\<close>, \<open>scope\<close>, \<open>redirect_uri\<close> (\<open><hostScheme>://<hostName><callbackPath>\<close>),
  \<open>state\<close> and \<open>grant_options[]\<close> (\<open>per-user\<close> exactly when \<open>isOnline\<close>, otherwise
  empty), in this order; the \<open>state\<close> parameter is the nonce, and the only cookie set
  is the state cookie, whose signed value is the same nonce.
\<close>

theorem begin_redirect:
  assumes "\<not> isPrivateApp config"
    and "sanitizeShop env config (Some shp) = Some cleanShop"
  shows "begin_auth env config now nonce_v shp callbackPath isOnline_p req =
     ([Log Info ''Beginning OAuth'',
       Log Debug (''OAuth started, redirecting to '' @ ''https://'' @ cleanShop
         @ ''/admin/oauth/authorize''
         @ stringify env
             [(''client_id'', apiKey config),
              (''scope'', scopes_toString env (scopes config)),
              (''redirect_uri'', hostScheme config @ ''://'' @ hostName config @ callbackPath),
              (''state'', nonce_v),
              (''grant_options[]'', if isOnline_p then ''per-user'' else [])])],
      Inr \<lparr>statusCode = 302, statusText = ''Found'',
           headers =
             \<lparr>Set_Cookie =
                [SignedCookie STATE_COOKIE_NAME nonce_v
                   (cookie_mac env (apiSecretKey config) nonce_v)
                   \<lparr>cookie_expires = Some (now + 60000), sameSite = Some ''lax'',
                    secure = True, cookie_path = Some callbackPath\<rparr>],
              Location = Some (''https://'' @ cleanShop @ ''/admin/oauth/authorize''
                @ stringify env
                    [(''client_id'', apiKey config),
                     (''scope'', scopes_toString env (scopes config)),
                     (''redirect_uri'',
                        hostScheme config @ ''://'' @ hostName config @ callbackPath),
                     (''state'', nonce_v),
                     (''grant_options[]'', if isOnline_p then ''per-user'' else [])])\<rparr>\<rparr>)"
  using assms
  by (simp add: begin_auth_def throwIfPrivateApp_def Let_def Cookies_new_def setAndSign_def)

theorem begin_redirect_witness:
  "\<not> isPrivateApp (example_config False False)
   \<and> sanitizeShop example_env (example_config False False) (Some ''shop1.myshopify.io'')
       = Some ''shop1.myshopify.io''
   \<and> snd (begin_auth example_env (example_config False False) 1000 ''nonce1'' ''shop1.myshopify.io''
        ''/auth/callback'' False (example_request ''abc'' ''nonce1'' ''valid'' ''secret/nonce1'')) =
     Inr \<lparr>statusCode = 302, statusText = ''Found'',
          headers =
            \<lparr>Set_Cookie =
               [SignedCookie STATE_COOKIE_NAME ''nonce1'' ''secret/nonce1''
                  \<lparr>cookie_expires = Some 61000, sameSite = Some ''lax'',
                   secure = True, cookie_path = Some ''/auth/callback''\<rparr>],
             Location = Some
               ''https://shop1.myshopify.io/admin/oauth/authorize?client_id=key&scope=read_products&redirect_uri=https://app.example.com/auth/callback&state=nonce1&grant_options[]=''\<rparr>\<rparr>
   \<and> Location (headers (projr (snd
        (begin_auth example_env (example_config False False) 1000 ''nonce1'' ''shop1.myshopify.io''
           ''/auth/callback'' True (example_request ''abc'' ''nonce1'' ''valid'' ''secret/nonce1''))))) =
       Some
        ''https://shop1.myshopify.io/admin/oauth/authorize?client_id=key&scope=read_products&redirect_uri=https://app.example.com/auth/callback&state=nonce1&grant_options[]=per-user''"
proof -
  have h1: "\<not> isPrivateApp (example_config False False)"
    by (simp add: example_config_def)
  have h2: "sanitizeShop example_env (example_config False False) (Some ''shop1.myshopify.io'')
       = Some ''shop1.myshopify.io''"
    by (simp add: example_env_def)
  show ?thesis
    using h1 h2
      begin_redirect [OF h1 h2, of 1000 "''nonce1''" "''/auth/callback''" False
        "example_request ''abc'' ''nonce1'' ''valid'' ''secret/nonce1''"]
      begin_redirect [OF h1 h2, of 1000 "''nonce1''" "''/auth/callback''" True
        "example_request ''abc'' ''nonce1'' ''valid'' ''secret/nonce1''"]
    by (simp add: example_env_def example_config_def)
qed

section \<open>The session cookie\<close>

text \<open>
  C8. The headers of a successful \<open>callback\<close> hold the expiry of the state cookie
  and, exactly when the app is not embedded, one signed session cookie; the value of
  that cookie is the id of the returned Session, signed under the API secret. For an
  embedded app the headers hold no session cookie.
\<close>

theorem session_cookie_iff_not_embedded:
  assumes "callback env config now uuid isOnlineParam req = (tr, Inr r)"
  shows "Set_Cookie (callback_headers r) =
           ExpiredCookie STATE_COOKIE_NAME #
             (if isEmbeddedApp config then []
              else [SignedCookie SESSION_COOKIE_NAME (session_id (callback_session r))
                      (cookie_mac env (apiSecretKey config) (session_id (callback_session r)))
                      \<lparr>cookie_expires = expires (callback_session r), sameSite = Some ''lax'',
                       secure = True, cookie_path = None\<rparr>])
       \<and> ((\<exists>v m opts. SignedCookie SESSION_COOKIE_NAME v m opts
                         \<in> set (Set_Cookie (callback_headers r)))
            \<longleftrightarrow> \<not> isEmbeddedApp config)
       \<and> (\<forall>v m opts. SignedCookie SESSION_COOKIE_NAME v m opts
                         \<in> set (Set_Cookie (callback_headers r))
              \<longrightarrow> v = session_id (callback_session r))"
proof -
  from callback_success [OF assms]
  have hs: "Set_Cookie (callback_headers r) =
           ExpiredCookie STATE_COOKIE_NAME #
             (if isEmbeddedApp config then []
              else [SignedCookie SESSION_COOKIE_NAME (session_id (callback_session r))
                      (cookie_mac env (apiSecretKey config) (session_id (callback_session r)))
                      \<lparr>cookie_expires = expires (callback_session r), sameSite = Some ''lax'',
                       secure = True, cookie_path = None\<rparr>])"
    by blast
  show ?thesis
    unfolding hs by (cases "isEmbeddedApp config") auto
qed

theorem session_cookie_iff_not_embedded_witness:
  "callback example_env (example_config False False) 1000 ''uuid-1'' None
     (example_request ''abc'' ''nonce1'' ''valid'' ''secret/nonce1'') =
   ([Log Info ''Completing OAuth'',
     Log Debug ''OAuth request is valid, requesting access token'',
     Post ''shop1.myshopify.io''
       \<lparr>data = \<lparr>client_id = ''key'', client_secret = ''secret'', code = Some ''abc''\<rparr>,
        extraHeaders = None, path = ''/admin/oauth/access_token'', type = JSON\<rparr>,
     Log Info ''Creating new session''],
    Inr \<lparr>callback_headers =
           \<lparr>Set_Cookie =
              [ExpiredCookie STATE_COOKIE_NAME,
               SignedCookie SESSION_COOKIE_NAME ''offline_shop1.myshopify.io''
                 ''secret/offline_shop1.myshopify.io''
                 \<lparr>cookie_expires = None, sameSite = Some ''lax'', secure = True,
                  cookie_path = None\<rparr>],
            Location = None\<rparr>,
         callback_session =
           \<lparr>session_id = ''offline_shop1.myshopify.io'', shop = ''shop1.myshopify.io'',
            state = ''nonce1'', isOnline = False, accessToken = Some ''tok'',
            session_scope = Some ''read_products'', expires = None,
            onlineAccessInfo = None\<rparr>\<rparr>)
   \<and> \<not> isEmbeddedApp (example_config False False)
   \<and> callback example_env (example_config True False) 1000 ''uuid-1'' None
     (example_request ''abc'' ''nonce1'' ''valid'' ''secret/nonce1'') =
   ([Log Info ''Completing OAuth'',
     Log Debug ''OAuth request is valid, requesting access token'',
     Post ''shop1.myshopify.io''
       \<lparr>data = \<lparr>client_id = ''key'', client_secret = ''secret'', code = Some ''abc''\<rparr>,
        extraHeaders = None, path = ''/admin/oauth/access_token'', type = JSON\<rparr>,
     Log Info ''Creating new session''],
    Inr \<lparr>callback_headers =
           \<lparr>Set_Cookie = [ExpiredCookie STATE_COOKIE_NAME], Location = None\<rparr>,
         callback_session =
           \<lparr>session_id = ''offline_shop1.myshopify.io'', shop = ''shop1.myshopify.io'',
            state = ''nonce1'', isOnline = False, accessToken = Some ''tok'',
            session_scope = Some ''read_products'', expires = None,
            onlineAccessInfo = None\<rparr>\<rparr>)
   \<and> isEmbeddedApp (example_config True False)"
proof -
  let ?req = "example_request ''abc'' ''nonce1'' ''valid'' ''secret/nonce1''"
  let ?tr = "[Log Info ''Completing OAuth'',
     Log Debug ''OAuth request is valid, requesting access token'',
     Post ''shop1.myshopify.io''
       \<lparr>data = \<lparr>client_id = ''key'', client_secret = ''secret'', code = Some ''abc''\<rparr>,
        extraHeaders = None, path = ''/admin/oauth/access_token'', type = JSON\<rparr>,
     Log Info ''Creating new session'']"
  let ?s = "\<lparr>session_id = ''offline_shop1.myshopify.io'', shop = ''shop1.myshopify.io'',
            state = ''nonce1'', isOnline = False, accessToken = Some ''tok'',
            session_scope = Some ''read_products'', expires = None,
            onlineAccessInfo = None\<rparr>"
  have 1: "callback example_env (example_config False False) 1000 ''uuid-1'' None ?req =
     (?tr, Inr \<lparr>callback_headers =
           \<lparr>Set_Cookie =
              [ExpiredCookie STATE_COOKIE_NAME,
               SignedCookie SESSION_COOKIE_NAME ''offline_shop1.myshopify.io''
                 ''secret/offline_shop1.myshopify.io''
                 \<lparr>cookie_expires = None, sameSite = Some ''lax'', secure = True,
                  cookie_path = None\<rparr>],
            Location = None\<rparr>,
         callback_session = ?s\<rparr>)"
    by (simp add: example_callback_offline)
  have 2: "callback example_env (example_config True False) 1000 ''uuid-1'' None ?req =
     (?tr, Inr \<lparr>callback_headers =
           \<lparr>Set_Cookie = [ExpiredCookie STATE_COOKIE_NAME], Location = None\<rparr>,
         callback_session = ?s\<rparr>)"
    by (simp add: example_callback_offline)
  have e: "\<not> isEmbeddedApp (example_config False False)"
          "isEmbeddedApp (example_config True False)"
    by (simp_all add: example_config_def)
  from session_cookie_iff_not_embedded [OF 1] session_cookie_iff_not_embedded [OF 2] 1 2 e
  show ?thesis
    by simp
qed

section \<open>Properties of the GraphQL client\<close>

text \<open>
  C9. Constructing a \<open>GraphqlClient\<close> throws \<open>MissingRequiredArgument\<close> when the app
  is not private and the session has no access token (undefined or empty). For a private
  app the client is constructed whatever the session holds, \<open>getAccessTokenHeader\<close>
  gives the access-token header with the configured \<open>apiSecretKey\<close> as its value, and
  that header is what \<open>query\<close> puts into the request it posts, before the caller's own
  \<open>extraHeaders\<close> are spread over it: unless the caller supplies a header of the
  same name, the request carries the \<open>apiSecretKey\<close> under it. The session's access
  token does not enter the request.
\<close>

theorem graphql_client_access_token:
  "(\<not> isPrivateApp (CONFIG cls) \<and> falsy_string (accessToken s) \<longrightarrow>
       GraphqlClient_new cls s =
         Inl (MissingRequiredArgument ''Missing access token when creating GraphQL client''))
   \<and> (isPrivateApp (CONFIG cls) \<longrightarrow>
        (\<exists>c. GraphqlClient_new cls s = Inr c
           \<and> session c = s
           \<and> getAccessTokenHeader hdr cls c =
               \<lparr>header = AccessToken hdr, header_value = Some (apiSecretKey (CONFIG cls))\<rparr>
           \<and> extraHeaders (query_request hdr cls c params) =
               Some (object_assign [(AccessToken hdr, Some (apiSecretKey (CONFIG cls)))]
                      (case extraHeaders params of None \<Rightarrow> [] | Some hs \<Rightarrow> hs))
           \<and> (\<forall>hs. extraHeaders (query_request hdr cls c params) = Some hs
                  \<and> AccessToken hdr
                        \<notin> fst ` set (case extraHeaders params of None \<Rightarrow> [] | Some hs \<Rightarrow> hs)
                \<longrightarrow> map_of hs (AccessToken hdr) = Some (Some (apiSecretKey (CONFIG cls))))
           \<and> (data params \<noteq> DataString [] \<and> data params \<noteq> DataObject [] \<longrightarrow>
                fst (query hdr cls c params) = [query_request hdr cls c params])))"
proof (intro conjI impI)
  assume "\<not> isPrivateApp (CONFIG cls) \<and> falsy_string (accessToken s)"
  then show "GraphqlClient_new cls s =
         Inl (MissingRequiredArgument ''Missing access token when creating GraphQL client'')"
    by (simp add: GraphqlClient_new_def)
next
  assume is_private: "isPrivateApp (CONFIG cls)"
  define c where "c = \<lparr>baseApiPath = ''/admin/api'', session = s,
                         client = \<lparr>domain = shop s\<rparr>\<rparr>"
  let ?caller = "case extraHeaders params of None \<Rightarrow> [] | Some hs \<Rightarrow> hs"
  have made: "GraphqlClient_new cls s = Inr c" and sess: "session c = s"
    using is_private by (simp_all add: GraphqlClient_new_def c_def)
  have hd: "getAccessTokenHeader hdr cls c =
               \<lparr>header = AccessToken hdr, header_value = Some (apiSecretKey (CONFIG cls))\<rparr>"
    using is_private by (simp add: getAccessTokenHeader_def)
  have hs: "extraHeaders (query_request hdr cls c params) =
               Some (object_assign [(AccessToken hdr, Some (apiSecretKey (CONFIG cls)))] ?caller)"
    by (simp add: query_request_def Let_def hd)
  have sent: "map_of hs' (AccessToken hdr) = Some (Some (apiSecretKey (CONFIG cls)))"
    if "extraHeaders (query_request hdr cls c params) = Some hs'
          \<and> AccessToken hdr \<notin> fst ` set ?caller" for hs'
    using that hs by (auto simp: object_assign_other)
  have posted: "fst (query hdr cls c params) = [query_request hdr cls c params]"
    if "data params \<noteq> DataString [] \<and> data params \<noteq> DataObject []"
    using that
    by (auto simp: query_def Let_def Object_entries_length_def
        split: GraphqlData.splits sum.splits)
  from made sess hd hs sent posted
  show "\<exists>c. GraphqlClient_new cls s = Inr c
           \<and> session c = s
           \<and> getAccessTokenHeader hdr cls c =
               \<lparr>header = AccessToken hdr, header_value = Some (apiSecretKey (CONFIG cls))\<rparr>
           \<and> extraHeaders (query_request hdr cls c params) =
               Some (object_assign [(AccessToken hdr, Some (apiSecretKey (CONFIG cls)))]
                      (case extraHeaders params of None \<Rightarrow> [] | Some hs \<Rightarrow> hs))
           \<and> (\<forall>hs. extraHeaders (query_request hdr cls c params) = Some hs
                  \<and> AccessToken hdr
                        \<notin> fst ` set (case extraHeaders params of None \<Rightarrow> [] | Some hs \<Rightarrow> hs)
                \<longrightarrow> map_of hs (AccessToken hdr) = Some (Some (apiSecretKey (CONFIG cls))))
           \<and> (data params \<noteq> DataString [] \<and> data params \<noteq> DataObject [] \<longrightarrow>
                fst (query hdr cls c params) = [query_request hdr cls c params])"
    by blast
qed

theorem graphql_client_access_token_witness:
  "\<not> isPrivateApp (CONFIG (example_graphql False [])) \<and> falsy_string (accessToken (example_session None))
   \<and> GraphqlClient_new (example_graphql False []) (example_session None) =
        Inl (MissingRequiredArgument ''Missing access token when creating GraphQL client'')
   \<and> isPrivateApp (CONFIG (example_graphql True []))
   \<and> GraphqlClient_new (example_graphql True []) (example_session None) = Inr (example_client None)
   \<and> getAccessTokenHeader example_header (example_graphql True []) (example_client None) =
        \<lparr>header = ''X-Shopify-Access-Token'', header_value = Some ''secret''\<rparr>
   \<and> fst (query example_header (example_graphql True []) (example_client None)
            \<lparr>data = DataString ''{ shop { name } }'',
             extraHeaders = Some [(''X-Request-Id'', Some ''42'')]\<rparr>) =
        [\<lparr>data = DataString ''{ shop { name } }'',
          extraHeaders = Some [(''X-Shopify-Access-Token'', Some ''secret''),
                               (''X-Request-Id'', Some ''42'')],
          path = ''/admin/api/2022-10/graphql.json'', type = GraphQL\<rparr>]
   \<and> map_of [(''X-Shopify-Access-Token'', Some ''secret''), (''X-Request-Id'', Some ''42'')]
        ''X-Shopify-Access-Token'' = Some (Some ''secret'')"
proof -
  let ?pub = "example_graphql False []"
  let ?priv = "example_graphql True []"
  let ?params = "\<lparr>data = DataString ''{ shop { name } }'',
                  extraHeaders = Some [(''X-Request-Id'', Some ''42'')]\<rparr>"
  have h1: "\<not> isPrivateApp (CONFIG ?pub) \<and> falsy_string (accessToken (example_session None))"
    by (simp add: example_graphql_def example_config_def example_session_def falsy_string_def)
  have h2: "isPrivateApp (CONFIG ?priv)"
    by (simp add: example_graphql_def example_config_def)
  have c: "GraphqlClient_new ?priv (example_session None) = Inr (example_client None)"
    by (simp add: GraphqlClient_new_def example_graphql_def example_config_def
          example_session_def example_client_def)
  have d: "data ?params \<noteq> DataString [] \<and> data ?params \<noteq> DataObject []"
    by simp
  have r: "query_request example_header ?priv (example_client None) ?params =
        \<lparr>data = DataString ''{ shop { name } }'',
         extraHeaders = Some [(''X-Shopify-Access-Token'', Some ''secret''),
                              (''X-Request-Id'', Some ''42'')],
         path = ''/admin/api/2022-10/graphql.json'', type = GraphQL\<rparr>"
    by (simp add: query_request_def getAccessTokenHeader_def Let_def object_assign_def
          example_header_def example_graphql_def example_config_def example_client_def)
  note pub = graphql_client_access_token [of ?pub "example_session None" example_header ?params]
  note priv = graphql_client_access_token [of ?priv "example_session None" example_header ?params]
  have a: "GraphqlClient_new ?pub (example_session None) =
        Inl (MissingRequiredArgument ''Missing access token when creating GraphQL client'')"
    using pub h1 by blast
  have b: "getAccessTokenHeader example_header ?priv (example_client None) =
        \<lparr>header = ''X-Shopify-Access-Token'', header_value = Some ''secret''\<rparr>
      \<and> fst (query example_header ?priv (example_client None) ?params) =
          [query_request example_header ?priv (example_client None) ?params]"
    using priv h2 c d
    by (simp add: example_header_def example_graphql_def example_config_def)
  have m: "map_of [(''X-Shopify-Access-Token'', Some ''secret''), (''X-Request-Id'', Some ''42'')]
             ''X-Shopify-Access-Token'' = Some (Some ''secret'')"
    by simp
  show ?thesis
    using h1 h2 a b c r m by simp
qed

text \<open>
  C10 as stated says that a response whose body has an \<open>errors\<close> key is never
  returned. The code tests \<open>body.errors\<close> for truthiness, so a body whose \<open>errors\<close>
  entry is \<open>null\<close> is returned as the result.
\<close>

theorem falsy_errors_returned_counterexample:
  "query example_header (example_graphql False [(''errors'', JNull)]) (example_client (Some ''tok''))
     \<lparr>data = DataString ''{ shop { name } }'', extraHeaders = None\<rparr> =
   ([\<lparr>data = DataString ''{ shop { name } }'',
      extraHeaders = Some [(''X-Shopify-Access-Token'', Some ''tok'')],
      path = ''/admin/api/2022-10/graphql.json'', type = GraphQL\<rparr>],
    Inr \<lparr>body = [(''errors'', JNull)]\<rparr>)"
  by (simp add: query_def query_request_def getAccessTokenHeader_def Let_def object_assign_def
        Object_entries_length_def errors_truthy_def
        example_header_def example_graphql_def example_config_def example_client_def
        example_session_def)

text \<open>
  C10, amended. \<open>query\<close> throws \<open>MissingRequiredArgument\<close> for data that is the empty
  string or an object with no entries, and issues no HTTP request then. For any other
  data, a response whose body has a truthy \<open>errors\<close> entry makes it throw
  \<open>GraphqlQueryError\<close> carrying that body, after the one request. A returned result
  never has a truthy \<open>errors\<close> entry.
\<close>

theorem query_errors:
  "((data params = DataString [] \<or> data params = DataObject []) \<longrightarrow>
       query hdr cls this params = ([], Inl (MissingRequiredArgument ''Query missing.'')))
   \<and> (\<forall>result. data params \<noteq> DataString [] \<and> data params \<noteq> DataObject []
          \<and> HTTP_CLIENT cls (client this) (query_request hdr cls this params) = Inr result
          \<and> errors_truthy (body result) \<longrightarrow>
        query hdr cls this params =
          ([query_request hdr cls this params],
           Inl (GraphqlQueryError ''GraphQL query returned errors'' (body result))))
   \<and> (\<forall>reqs result. query hdr cls this params = (reqs, Inr result) \<longrightarrow>
         \<not> errors_truthy (body result))"
  by (auto simp: query_def Let_def Object_entries_length_def
      split: GraphqlData.splits sum.splits if_splits)

theorem query_errors_witness:
  "query example_header (example_graphql False []) (example_client (Some ''tok''))
     \<lparr>data = DataString [], extraHeaders = None\<rparr>
     = ([], Inl (MissingRequiredArgument ''Query missing.''))
   \<and> query example_header (example_graphql False []) (example_client (Some ''tok''))
     \<lparr>data = DataObject [], extraHeaders = None\<rparr>
     = ([], Inl (MissingRequiredArgument ''Query missing.''))
   \<and> errors_truthy [(''errors'', JArray [JString ''Field does not exist''])]
   \<and> query example_header (example_graphql False [(''errors'', JArray [JString ''Field does not exist''])])
       (example_client (Some ''tok''))
       \<lparr>data = DataString ''{ shop { nam } }'', extraHeaders = None\<rparr>
     = ([\<lparr>data = DataString ''{ shop { nam } }'',
          extraHeaders = Some [(''X-Shopify-Access-Token'', Some ''tok'')],
          path = ''/admin/api/2022-10/graphql.json'', type = GraphQL\<rparr>],
        Inl (GraphqlQueryError ''GraphQL query returned errors''
               [(''errors'', JArray [JString ''Field does not exist''])]))
   \<and> query example_header (example_graphql False [(''data'', JObject [])])
       (example_client (Some ''tok''))
       \<lparr>data = DataObject [(''query'', JString ''{ shop { name } }'')], extraHeaders = None\<rparr>
     = ([\<lparr>data = DataObject [(''query'', JString ''{ shop { name } }'')],
          extraHeaders = Some [(''X-Shopify-Access-Token'', Some ''tok'')],
          path = ''/admin/api/2022-10/graphql.json'', type = JSON\<rparr>],
        Inr \<lparr>body = [(''data'', JObject [])]\<rparr>)
   \<and> \<not> errors_truthy [(''data'', JObject [])]"
proof -
  let ?c = "example_client (Some ''tok'')"
  let ?bad = "[(''errors'', JArray [JString ''Field does not exist''])]"
  let ?q = "\<lparr>data = DataString ''{ shop { nam } }'', extraHeaders = None\<rparr>"
  let ?q' = "\<lparr>data = DataObject [(''query'', JString ''{ shop { name } }'')], extraHeaders = None\<rparr>"
  note defs = query_request_def getAccessTokenHeader_def Let_def object_assign_def
        example_header_def example_graphql_def example_config_def example_client_def
        example_session_def
  have e1: "data \<lparr>data = DataString [], extraHeaders = None\<rparr> = DataString []
            \<or> data \<lparr>data = DataString [], extraHeaders = None\<rparr> = DataObject []"
    by simp
  have e2: "data \<lparr>data = DataObject [], extraHeaders = None\<rparr> = DataString []
            \<or> data \<lparr>data = DataObject [], extraHeaders = None\<rparr> = DataObject []"
    by simp
  have t: "errors_truthy ?bad"
    by (simp add: errors_truthy_def)
  have r: "query_request example_header (example_graphql False ?bad) ?c ?q =
             \<lparr>data = DataString ''{ shop { nam } }'',
              extraHeaders = Some [(''X-Shopify-Access-Token'', Some ''tok'')],
              path = ''/admin/api/2022-10/graphql.json'', type = GraphQL\<rparr>"
    by (simp add: defs)
  have h: "HTTP_CLIENT (example_graphql False ?bad) (client ?c)
             (query_request example_header (example_graphql False ?bad) ?c ?q)
           = Inr \<lparr>body = ?bad\<rparr>"
    by (simp add: example_graphql_def)
  have ok: "query example_header (example_graphql False [(''data'', JObject [])]) ?c ?q'
     = ([\<lparr>data = DataObject [(''query'', JString ''{ shop { name } }'')],
          extraHeaders = Some [(''X-Shopify-Access-Token'', Some ''tok'')],
          path = ''/admin/api/2022-10/graphql.json'', type = JSON\<rparr>],
        Inr \<lparr>body = [(''data'', JObject [])]\<rparr>)"
    by (simp add: query_def Object_entries_length_def errors_truthy_def defs)
  have a: "query example_header (example_graphql False []) ?c
             \<lparr>data = DataString [], extraHeaders = None\<rparr>
           = ([], Inl (MissingRequiredArgument ''Query missing.''))"
    using query_errors [of "\<lparr>data = DataString [], extraHeaders = None\<rparr>" example_header
            "example_graphql False []" ?c] e1
    by blast
  have b: "query example_header (example_graphql False []) ?c
             \<lparr>data = DataObject [], extraHeaders = None\<rparr>
           = ([], Inl (MissingRequiredArgument ''Query missing.''))"
    using query_errors [of "\<lparr>data = DataObject [], extraHeaders = None\<rparr>" example_header
            "example_graphql False []" ?c] e2
    by blast
  have c: "query example_header (example_graphql False ?bad) ?c ?q
           = ([query_request example_header (example_graphql False ?bad) ?c ?q],
              Inl (GraphqlQueryError ''GraphQL query returned errors'' ?bad))"
    using query_errors [of ?q example_header "example_graphql False ?bad" ?c] h t
    by simp
  have d: "\<not> errors_truthy [(''data'', JObject [])]"
    using query_errors [of ?q' example_header "example_graphql False [(''data'', JObject [])]" ?c] ok
    by simp
  show ?thesis
    using a b c d t ok unfolding r by simp
qed

end
